theory Spec2Isabelle
  imports Main "HOL-Library.Word"
begin

section \<open>JavaScript strings\<close>

text \<open>
  A JavaScript string is a sequence of 16-bit code units; \<open>length\<close>, \<open>slice\<close>, \<open>split\<close>,
  \<open>trim\<close> and regular expressions without the \<open>u\<close> flag all work on code units.
\<close>

type_synonym jschar = "16 word"
type_synonym jsstring = "jschar list"

definition js :: "string \<Rightarrow> jsstring" where
  "js s = map (\<lambda>c. of_nat (of_char c)) s"

definition LF :: jschar where "LF = 0x0A"
definition CR :: jschar where "CR = 0x0D"
definition BSL :: jschar where "BSL = 0x5C"
definition DQ :: jschar where "DQ = 0x22"

definition is_pct :: "jschar \<Rightarrow> bool" where
  "is_pct c \<longleftrightarrow> c = 0x25"

text \<open>
  The class \<open>\s\<close> of a regular expression and the characters removed by \<open>trim()\<close> are the
  same set: ECMAScript's WhiteSpace (TAB, VT, FF, SP, NBSP, ZWNBSP and the category Zs)
  together with LineTerminator (LF, CR, LS, PS).
\<close>

definition is_space :: "jschar \<Rightarrow> bool" where
  "is_space c \<longleftrightarrow>
     c \<in> {0x09, 0x0A, 0x0B, 0x0C, 0x0D, 0x20, 0xA0, 0x1680, 0x2028, 0x2029, 0x202F, 0x205F,
          0x3000, 0xFEFF}
     \<or> (0x2000 \<le> c \<and> c \<le> 0x200A)"

text \<open>\<open>String.prototype.trim\<close>.\<close>

definition trim :: "jsstring \<Rightarrow> jsstring" where
  "trim s = rev (dropWhile is_space (rev (dropWhile is_space s)))"

text \<open>\<open>out.join('\n')\<close>.\<close>

fun join_nl :: "jsstring list \<Rightarrow> jsstring" where
  "join_nl [] = []"
| "join_nl [x] = x"
| "join_nl (x # y # ys) = x @ LF # join_nl (y # ys)"

text \<open>
  \<open>text.split(/\r?\n/)\<close>: the separator is a line feed with the carriage return before it,
  when there is one; the empty string splits into one empty line.
\<close>

fun cons_first :: "jschar \<Rightarrow> jsstring list \<Rightarrow> jsstring list" where
  "cons_first c [] = [[c]]"
| "cons_first c (l # ls) = (c # l) # ls"

fun split_lines :: "jsstring \<Rightarrow> jsstring list" where
  "split_lines [] = [[]]"
| "split_lines (c # cs) =
     (if c = LF then [] # split_lines cs
      else if c = CR then
        (case cs of
           [] \<Rightarrow> [[c]]
         | d # ds \<Rightarrow> if d = LF then [] # split_lines ds else cons_first c (split_lines cs))
      else cons_first c (split_lines cs))"

section \<open>The regular expressions of the extractor\<close>

text \<open>
  The three patterns of \<open>extractMatplotlibPreamble\<close> are anchored at the start of the line
  and are sequences of a literal, \<open>c+\<close>, \<open>c*\<close> and \<open>c{n}\<close> over a character class. The
  matcher is the backtracking one of the language: \<open>rx_ends r s\<close> lists, in the order the
  engine tries them (greedy: longest repetition first), the rests of \<open>s\<close> after a match of
  \<open>r\<close> at its start.
\<close>

datatype atom =
    Lit jsstring
  | Plus "jschar \<Rightarrow> bool"
  | Star "jschar \<Rightarrow> bool"
  | Rep nat "jschar \<Rightarrow> bool"

fun star_ends :: "(jschar \<Rightarrow> bool) \<Rightarrow> jsstring \<Rightarrow> jsstring list" where
  "star_ends p [] = [[]]"
| "star_ends p (c # cs) = (if p c then star_ends p cs @ [c # cs] else [c # cs])"

fun atom_ends :: "atom \<Rightarrow> jsstring \<Rightarrow> jsstring list" where
  "atom_ends (Lit l) s = (if take (length l) s = l then [drop (length l) s] else [])"
| "atom_ends (Plus p) s = (case s of [] \<Rightarrow> [] | c # cs \<Rightarrow> if p c then star_ends p cs else [])"
| "atom_ends (Star p) s = star_ends p s"
| "atom_ends (Rep n p) s =
     (if n \<le> length s \<and> list_all p (take n s) then [drop n s] else [])"

fun rx_ends :: "atom list \<Rightarrow> jsstring \<Rightarrow> jsstring list" where
  "rx_ends [] s = [s]"
| "rx_ends (a # as) s = concat (map (rx_ends as) (atom_ends a s))"

text \<open>\<open>/^r/.test(s)\<close> and \<open>s.replace(/^r/, '')\<close>.\<close>

definition rx_test :: "atom list \<Rightarrow> jsstring \<Rightarrow> bool" where
  "rx_test r s \<longleftrightarrow> rx_ends r s \<noteq> []"

definition rx_replace :: "atom list \<Rightarrow> jsstring \<Rightarrow> jsstring" where
  "rx_replace r s = (case rx_ends r s of [] \<Rightarrow> s | rest # _ \<Rightarrow> rest)"

text \<open>\<open>/^%+\s*Matplotlib used the following preamble/\<close>\<close>

definition marker_rx :: "atom list" where
  "marker_rx = [Plus is_pct, Star is_space, Lit (js ''Matplotlib used the following preamble'')]"

text \<open>\<open>/^%+\s{3}/\<close>\<close>

definition indent_rx :: "atom list" where
  "indent_rx = [Plus is_pct, Rep 3 is_space]"

text \<open>\<open>/^\s*%+\s*/\<close>\<close>

definition prefix_rx :: "atom list" where
  "prefix_rx = [Star is_space, Plus is_pct, Star is_space]"

section \<open>The preamble extractor\<close>

text \<open>
  The first loop of \<open>extractMatplotlibPreamble\<close>: \<open>start\<close> is \<open>-1\<close> until a line matches the
  marker, then the index after that line.
\<close>

function find_start :: "jsstring list \<Rightarrow> nat \<Rightarrow> int" where
  "find_start lines i =
     (if i < length lines then
        (if rx_test marker_rx (lines ! i) then int i + 1 else find_start lines (i + 1))
      else - 1)"
  by pat_completeness auto
termination
  by (relation "measure (\<lambda>(lines, i). length lines - i)") auto

text \<open>The second loop: it stops at the first line that does not match the indent pattern.\<close>

function collect :: "jsstring list \<Rightarrow> nat \<Rightarrow> jsstring list \<Rightarrow> jsstring list" where
  "collect lines i out =
     (if i < length lines then
        (if \<not> rx_test indent_rx (lines ! i) then out
         else collect lines (i + 1) (out @ [rx_replace prefix_rx (lines ! i)]))
      else out)"
  by pat_completeness auto
termination
  by (relation "measure (\<lambda>(lines, i, out). length lines - i)") auto

definition extractMatplotlibPreamble :: "jsstring \<Rightarrow> jsstring option" where
  "extractMatplotlibPreamble text =
     (let lines = split_lines text;
          start = find_start lines 0
      in if start = - 1 then None
         else
           (let out = collect lines (nat start) [];
                result = trim (join_nl out)
            in if length result \<noteq> 0 then Some result else None))"

text \<open>
  What the specification calls de-commenting a line: the leading run of comment characters
  goes, and the white space after it.
\<close>

definition decomment :: "jsstring \<Rightarrow> jsstring" where
  "decomment line = dropWhile is_space (dropWhile is_pct line)"

section \<open>Thrown values\<close>

text \<open>
  Of a thrown value the code reads \<open>err.message\<close> and \<open>String(err)\<close>. A message that is
  missing or empty is falsy, and is the empty string here.
\<close>

record js_error =
  message :: jsstring
  as_string :: jsstring

text \<open>\<open>new Error(m)\<close>\<close>

definition new_Error :: "jsstring \<Rightarrow> js_error" where
  "new_Error m =
     \<lparr>message = m, as_string = (if m = [] then js ''Error'' else js ''Error: '' @ m)\<rparr>"

text \<open>\<open>String(err.message || err)\<close>\<close>

definition error_text :: "js_error \<Rightarrow> jsstring" where
  "error_text e = (if message e \<noteq> [] then message e else as_string e)"

section \<open>The outside world\<close>

text \<open>
  Every call that leaves the extension is recorded, in order: the calls to \<open>fs\<close> and to
  \<open>execFile\<close>, the host command, and every access to the webview panel. These are all the
  calls the extension makes; it has no call that removes a file or a directory. The output
  to the console is not recorded: it changes no result.
\<close>

datatype op =
    Mkdtemp jsstring
  | CopyFile jsstring jsstring
  | ReadFile jsstring
  | WriteFile jsstring jsstring
  | ExecFile jsstring "jsstring list" "jsstring option"
  | ExistsSync jsstring
  | SetOptions jsstring
  | ExecuteCommand jsstring jsstring
  | DisposePanel
  | AsWebviewUri jsstring
  | SetHtml jsstring

text \<open>
  What the platform answers: Node's \<open>os\<close>, \<open>path\<close>, \<open>fs\<close> and \<open>child_process\<close>, and the editor
  host. None of it is code of the extension, so it is a parameter; \<open>'w\<close> is the state of
  the world (the disk, the host). A call that can reject or throw answers \<open>Inl\<close> of the
  thrown value: the promises of \<open>fs.promises\<close>, \<open>execFile\<close> (promisified; it rejects on a
  non-zero exit and when the command cannot be started),
  \<open>vscode.commands.executeCommand\<close>, \<open>webviewPanel.dispose\<close>, and the accesses to the
  webview of the panel, which throw once the panel is disposed: \<open>setOptions p\<close> is the
  assignment \<open>webviewPanel.webview.options = { ..., localResourceRoots: [Uri.file(p)] }\<close>,
  \<open>setHtml h\<close> the assignment \<open>webviewPanel.webview.html = h\<close>, and \<open>asWebviewUri p\<close> the text
  of \<open>webviewPanel.webview.asWebviewUri(vscode.Uri.file(p))\<close>. \<open>execFile\<close> takes the command,
  its arguments and the \<open>cwd\<close> option. The path functions are pure. A thrown value is an
  object, as the errors of Node and of the host are.
\<close>

record 'w env =
  tmpdir :: jsstring
  path_join :: "jsstring \<Rightarrow> jsstring \<Rightarrow> jsstring"
  basename :: "jsstring \<Rightarrow> jsstring"
  basename_ext :: "jsstring \<Rightarrow> jsstring \<Rightarrow> jsstring"
  extname :: "jsstring \<Rightarrow> jsstring"
  mkdtemp :: "jsstring \<Rightarrow> 'w \<Rightarrow> (js_error + jsstring) \<times> 'w"
  copyFile :: "jsstring \<Rightarrow> jsstring \<Rightarrow> 'w \<Rightarrow> (js_error + unit) \<times> 'w"
  readFile :: "jsstring \<Rightarrow> 'w \<Rightarrow> (js_error + jsstring) \<times> 'w"
  writeFile :: "jsstring \<Rightarrow> jsstring \<Rightarrow> 'w \<Rightarrow> (js_error + unit) \<times> 'w"
  execFile :: "jsstring \<Rightarrow> jsstring list \<Rightarrow> jsstring option \<Rightarrow> 'w \<Rightarrow> (js_error + unit) \<times> 'w"
  existsSync :: "jsstring \<Rightarrow> 'w \<Rightarrow> bool"
  executeCommand :: "jsstring \<Rightarrow> jsstring \<Rightarrow> 'w \<Rightarrow> (js_error + unit) \<times> 'w"
  dispose :: "'w \<Rightarrow> (js_error + unit) \<times> 'w"
  setOptions :: "jsstring \<Rightarrow> 'w \<Rightarrow> (js_error + unit) \<times> 'w"
  setHtml :: "jsstring \<Rightarrow> 'w \<Rightarrow> (js_error + unit) \<times> 'w"
  asWebviewUri :: "jsstring \<Rightarrow> 'w \<Rightarrow> (js_error + jsstring) \<times> 'w"

record 'w state =
  world :: 'w
  trace :: "op list"

section \<open>Control flow: sequencing, throw, try and catch\<close>

type_synonym ('a, 'w) prog = "'w state \<Rightarrow> (js_error + 'a) \<times> 'w state"

definition ret :: "'a \<Rightarrow> ('a, 'w) prog" where
  "ret v s = (Inr v, s)"

definition throw :: "js_error \<Rightarrow> ('a, 'w) prog" where
  "throw e s = (Inl e, s)"

definition and_then :: "('a, 'w) prog \<Rightarrow> ('a \<Rightarrow> ('b, 'w) prog) \<Rightarrow> ('b, 'w) prog" where
  "and_then m f s = (case m s of (Inl e, s') \<Rightarrow> (Inl e, s') | (Inr v, s') \<Rightarrow> f v s')"

definition try_catch :: "('a, 'w) prog \<Rightarrow> (js_error \<Rightarrow> ('a, 'w) prog) \<Rightarrow> ('a, 'w) prog" where
  "try_catch m h s = (case m s of (Inl e, s') \<Rightarrow> h e s' | (Inr v, s') \<Rightarrow> (Inr v, s'))"

text \<open>A call to the platform: the answer is the platform's, and the call is recorded.\<close>

definition call :: "op \<Rightarrow> ('w \<Rightarrow> (js_error + 'a) \<times> 'w) \<Rightarrow> ('a, 'w) prog" where
  "call c f s = (case f (world s) of (r, w) \<Rightarrow> (r, \<lparr>world = w, trace = trace s @ [c]\<rparr>))"

text \<open>\<open>fs.existsSync\<close> answers a boolean and never throws.\<close>

definition exists_sync :: "'w env \<Rightarrow> jsstring \<Rightarrow> (bool, 'w) prog" where
  "exists_sync E p = call (ExistsSync p) (\<lambda>w. (Inr (existsSync E p w), w))"

text \<open>Whether a call resolved (returned) rather than rejected (threw).\<close>

fun resolved :: "js_error + 'a \<Rightarrow> bool" where
  "resolved (Inl e) = False"
| "resolved (Inr v) = True"

section \<open>compilePgfToPdf\<close>

text \<open>The template literal of \<open>texContent\<close>; a preamble that is \<open>null\<close> or empty is falsy.\<close>

definition texContent :: "jsstring \<Rightarrow> jsstring option \<Rightarrow> jsstring" where
  "texContent srcPath matplotlibPreamble =
     BSL # js ''documentclass[border=1mm]{standalone}'' @ [LF]
     @ BSL # js ''usepackage{pgf}'' @ [LF]
     @ BSL # js ''usepackage{lmodern}'' @ [LF]
     @ (case matplotlibPreamble of
          None \<Rightarrow> []
        | Some p \<Rightarrow> if p \<noteq> [] then p @ [LF] else [])
     @ BSL # js ''begin{document}'' @ [LF]
     @ BSL # js ''input{'' @ srcPath @ js ''}'' @ [LF]
     @ BSL # js ''end{document}'' @ [LF]"

text \<open>
  \<open>(log && log.length > 200) ? log.slice(0,200) + '...' : log || String(err.message || err)\<close>
\<close>

definition short_log :: "jsstring \<Rightarrow> js_error \<Rightarrow> jsstring" where
  "short_log log err =
     (if log \<noteq> [] \<and> length log > 200 then take 200 log @ js ''...''
      else if log \<noteq> [] then log
      else error_text err)"

text \<open>\<open>let x = ''; try { x = await fs.promises.readFile(p, 'utf8'); } catch (e) { }\<close>\<close>

definition read_or_empty :: "'w env \<Rightarrow> jsstring \<Rightarrow> (jsstring, 'w) prog" where
  "read_or_empty E p = try_catch (call (ReadFile p) (readFile E p)) (\<lambda>e. ret [])"

definition compilePgfToPdf :: "'w env \<Rightarrow> jsstring \<Rightarrow> (jsstring \<times> jsstring, 'w) prog" where
  "compilePgfToPdf E srcPath =
     and_then (call (Mkdtemp (path_join E (tmpdir E) (js ''vscode-pgf-'')))
                 (mkdtemp E (path_join E (tmpdir E) (js ''vscode-pgf-'')))) (\<lambda>tmpRoot.
     let base = basename_ext E srcPath (extname E srcPath);
         dstSrc = path_join E tmpRoot (basename E srcPath)
     in
     and_then (call (CopyFile srcPath dstSrc) (copyFile E srcPath dstSrc)) (\<lambda>_.
     let texName = base @ js ''.tex'';
         texPath = path_join E tmpRoot texName
     in
     and_then (read_or_empty E dstSrc) (\<lambda>srcText.
     let matplotlibPreamble = extractMatplotlibPreamble srcText;
         texContent = texContent srcPath matplotlibPreamble
     in
     and_then (call (WriteFile texPath texContent) (writeFile E texPath texContent)) (\<lambda>_.
     and_then
       (try_catch
          (call (ExecFile (js ''pdflatex'')
                   [js ''-interaction=batchmode'', js ''-output-directory'', tmpRoot, texName]
                   (Some tmpRoot))
             (execFile E (js ''pdflatex'')
                [js ''-interaction=batchmode'', js ''-output-directory'', tmpRoot, texName]
                (Some tmpRoot)))
          (\<lambda>err.
             let logPath = path_join E tmpRoot (base @ js ''.log'') in
             and_then (read_or_empty E logPath) (\<lambda>log.
             let short = short_log log err in
             throw (new_Error (js ''Failed to build PGF: '' @ short))))) (\<lambda>_.
     let pdfPath = path_join E tmpRoot (base @ js ''.pdf'') in
     and_then (exists_sync E pdfPath) (\<lambda>found.
     if \<not> found then
       throw (new_Error (js ''PDF not produced. Ensure `pdflatex` is installed.''))
     else ret (tmpRoot, pdfPath)))))))"

section \<open>renderPdfToPng\<close>

text \<open>
  One of the three blocks \<open>try { await execFileP(tool, args); if (fs.existsSync(pngPath))
  { return pngPath; } } catch (e) { }\<close>: \<open>True\<close> when the block returns the path, \<open>False\<close>
  when control falls through to the next statement.
\<close>

definition attempt :: "'w env \<Rightarrow> jsstring \<Rightarrow> jsstring list \<Rightarrow> jsstring \<Rightarrow> (bool, 'w) prog" where
  "attempt E tool args pngPath =
     try_catch
       (and_then (call (ExecFile tool args None) (execFile E tool args None)) (\<lambda>_.
          exists_sync E pngPath))
       (\<lambda>e. ret False)"

definition renderPdfToPng :: "'w env \<Rightarrow> jsstring \<Rightarrow> jsstring \<Rightarrow> (jsstring, 'w) prog" where
  "renderPdfToPng E pdfPath tmpRoot =
     (let base = basename_ext E pdfPath (extname E pdfPath);
          outPrefix = path_join E tmpRoot base;
          pngPath = path_join E tmpRoot (base @ js ''.png'')
      in
      and_then (attempt E (js ''pdftocairo'')
                  [js ''-png'', js ''-singlefile'', pdfPath, outPrefix] pngPath) (\<lambda>done1.
      if done1 then ret pngPath else
      and_then (attempt E (js ''pdftoppm'')
                  [js ''-png'', js ''-singlefile'', pdfPath, outPrefix] pngPath) (\<lambda>done2.
      if done2 then ret pngPath else
      and_then (attempt E (js ''convert'')
                  [js ''-density'', js ''300'', pdfPath, pngPath] pngPath) (\<lambda>done3.
      if done3 then ret pngPath else
      throw (new_Error (js ''No rasterizer found: please install pdftocairo, pdftoppm, or ImageMagick `convert`.''))))))"

section \<open>PgfViewerProvider.resolveCustomEditor\<close>

definition fallback_html :: "jsstring \<Rightarrow> jsstring \<Rightarrow> jsstring" where
  "fallback_html msg pdfUri =
     js ''<html><body><p>Could not rasterize PDF: '' @ msg
     @ js ''</p><p><a href='' @ [DQ] @ pdfUri @ [DQ]
     @ js ''>Open PDF externally</a></p></body></html>''"

definition error_html :: "jsstring \<Rightarrow> jsstring" where
  "error_html msg = js ''<html><body><pre>Error: '' @ msg @ js ''</pre></body></html>''"

definition resolveCustomEditor :: "'w env \<Rightarrow> jsstring \<Rightarrow> (unit, 'w) prog" where
  "resolveCustomEditor E srcPath =
     try_catch
       (and_then (compilePgfToPdf E srcPath) (\<lambda>(tmpRoot, pdfPath).
        and_then (call (SetOptions tmpRoot) (setOptions E tmpRoot)) (\<lambda>_.
        try_catch
          (and_then (renderPdfToPng E pdfPath tmpRoot) (\<lambda>pngPath.
           and_then (call (ExecuteCommand (js ''vscode.open'') pngPath)
                       (executeCommand E (js ''vscode.open'') pngPath)) (\<lambda>_.
           try_catch (call DisposePanel (dispose E)) (\<lambda>e. ret ()))))
          (\<lambda>e.
             and_then (call (AsWebviewUri pdfPath) (asWebviewUri E pdfPath)) (\<lambda>pdfUri.
             call (SetHtml (fallback_html (error_text e) pdfUri))
               (setHtml E (fallback_html (error_text e) pdfUri)))))))
       (\<lambda>err. call (SetHtml (error_html (error_text err)))
                 (setHtml E (error_html (error_text err))))"

section \<open>Notions of the specification, and sample inputs\<close>

definition nonempty_or_null :: "jsstring \<Rightarrow> jsstring option" where
  "nonempty_or_null s = (if s = [] then None else Some s)"



text \<open>Sample inputs: a PGF file as Matplotlib writes it, and its lines.\<close>

definition sample_marker :: jsstring where
  "sample_marker = js ''%% Matplotlib used the following preamble''"

definition sample_text :: jsstring where
  "sample_text =
     js ''%% Creator: Matplotlib'' @ [LF] @ sample_marker @ [LF]
     @ js ''%%   x'' @ [LF] @ js ''%%   y'' @ [CR, LF] @ js ''%% z'' @ [LF] @ js ''%%   w''"

definition blank_block_text :: jsstring where
  "blank_block_text = sample_marker @ [LF] @ js ''%%    '' @ [LF] @ js ''%%   ''"

section \<open>A test double of the platform\<close>

text \<open>
  POSIX paths, a disk that is the list of the paths present on it, and tools that answer as
  told: \<open>src\<close> is the text of the copied source (\<open>None\<close>: it cannot be read), \<open>log\<close> the
  text of the TeX log (\<open>None\<close>: there is none), \<open>ok cmd\<close> whether the command exits with
  status zero, \<open>makes cmd\<close> the files it leaves on the disk, \<open>opens\<close> whether the host
  opens the image, \<open>panel\<close> whether the webview panel is still there (not disposed). The
  command \<open>rm\<close> works: it removes from the disk every path that one of its arguments is a
  prefix of.
\<close>

definition under :: "jsstring list \<Rightarrow> jsstring \<Rightarrow> bool" where
  "under dirs p \<longleftrightarrow> list_ex (\<lambda>d. take (length d) p = d) dirs"

definition posix_join :: "jsstring \<Rightarrow> jsstring \<Rightarrow> jsstring" where
  "posix_join a b = a @ js ''/'' @ b"

definition posix_basename :: "jsstring \<Rightarrow> jsstring" where
  "posix_basename p = rev (takeWhile (\<lambda>c. c \<noteq> 0x2F) (rev p))"

definition posix_extname :: "jsstring \<Rightarrow> jsstring" where
  "posix_extname p =
     (let b = posix_basename p
      in if 0x2E \<in> set b then 0x2E # rev (takeWhile (\<lambda>c. c \<noteq> 0x2E) (rev b)) else [])"

definition posix_basename_ext :: "jsstring \<Rightarrow> jsstring \<Rightarrow> jsstring" where
  "posix_basename_ext p ext =
     (let b = posix_basename p; n = length b - length ext
      in if ext \<noteq> [] \<and> length ext < length b \<and> drop n b = ext then take n b else b)"

definition fake_env ::
  "jsstring option \<Rightarrow> jsstring option \<Rightarrow> (jsstring \<Rightarrow> bool) \<Rightarrow> (jsstring \<Rightarrow> jsstring list) \<Rightarrow> bool
   \<Rightarrow> bool \<Rightarrow> (jsstring list) env" where
  "fake_env src log ok makes opens panel =
     \<lparr>tmpdir = js ''/tmp'',
      path_join = posix_join,
      basename = posix_basename,
      basename_ext = posix_basename_ext,
      extname = posix_extname,
      mkdtemp = (\<lambda>p w. (Inr (p @ js ''Xk3f9a''), (p @ js ''Xk3f9a'') # w)),
      copyFile = (\<lambda>a b w. if a \<in> set w then (Inr (), b # w)
                           else (Inl (new_Error (js ''ENOENT: no such file'')), w)),
      readFile = (\<lambda>p w. case (if posix_extname p = js ''.log'' then log else src) of
                           None \<Rightarrow> (Inl (new_Error (js ''EACCES: permission denied'')), w)
                         | Some t \<Rightarrow> (Inr t, w)),
      writeFile = (\<lambda>p c w. (Inr (), p # w)),
      execFile = (\<lambda>cmd args cwd w.
                    if cmd = js ''rm'' then (Inr (), filter (\<lambda>p. \<not> under args p) w)
                    else
                      (if ok cmd then Inr () else Inl (new_Error (js ''Command failed: '' @ cmd)),
                       makes cmd @ w)),
      existsSync = (\<lambda>p w. p \<in> set w),
      executeCommand = (\<lambda>c a w.
                    (if opens then Inr () else Inl (new_Error (js ''Unable to open'')), w)),
      dispose = (\<lambda>w. (Inr (), w)),
      setOptions = (\<lambda>p w.
                    (if panel then Inr () else Inl (new_Error (js ''Webview is disposed'')), w)),
      setHtml = (\<lambda>h w.
                    (if panel then Inr () else Inl (new_Error (js ''Webview is disposed'')), w)),
      asWebviewUri = (\<lambda>p w.
                    (if panel then Inr (js ''vscode-webview://'' @ p)
                     else Inl (new_Error (js ''Webview is disposed'')), w))\<rparr>"

definition fig_pgf :: jsstring where "fig_pgf = js ''/home/u/fig.pgf''"
definition fig_tmp :: jsstring where "fig_tmp = js ''/tmp/vscode-pgf-Xk3f9a''"
definition fig_pdf :: jsstring where "fig_pdf = js ''/tmp/vscode-pgf-Xk3f9a/fig.pdf''"
definition fig_png :: jsstring where "fig_png = js ''/tmp/vscode-pgf-Xk3f9a/fig.png''"

text \<open>The disk at the start holds the source file only; nothing has been called yet.\<close>

definition start :: "(jsstring list) state" where
  "start = \<lparr>world = [fig_pgf], trace = []\<rparr>"

text \<open>Tools: all of them work; the TeX engine fails; only the last rasterizer works.\<close>

definition all_ok :: "jsstring \<Rightarrow> bool" where
  "all_ok cmd = True"

definition tex_fails :: "jsstring \<Rightarrow> bool" where
  "tex_fails cmd \<longleftrightarrow> cmd \<noteq> js ''pdflatex''"

definition makes_all :: "jsstring \<Rightarrow> jsstring list" where
  "makes_all cmd = (if cmd = js ''pdflatex'' then [fig_pdf] else [fig_png])"

definition makes_pdf_only :: "jsstring \<Rightarrow> jsstring list" where
  "makes_pdf_only cmd = (if cmd = js ''pdflatex'' then [fig_pdf] else [])"

definition makes_nothing :: "jsstring \<Rightarrow> jsstring list" where
  "makes_nothing cmd = []"

definition only_convert :: "jsstring \<Rightarrow> jsstring list" where
  "only_convert cmd =
     (if cmd = js ''pdflatex'' then [fig_pdf] else if cmd = js ''convert'' then [fig_png] else [])"

definition fig_copy :: jsstring where "fig_copy = js ''/tmp/vscode-pgf-Xk3f9a/fig.pgf''"
definition fig_tex :: jsstring where "fig_tex = js ''/tmp/vscode-pgf-Xk3f9a/fig.tex''"
definition fig_log :: jsstring where "fig_log = js ''/tmp/vscode-pgf-Xk3f9a/fig.log''"

definition pdflatex_args :: "jsstring list" where
  "pdflatex_args =
     [js ''-interaction=batchmode'', js ''-output-directory'', fig_tmp, js ''fig'' @ js ''.tex'']"

definition long_log :: jsstring where
  "long_log = replicate 500 0x61"

text \<open>The disk after the workspace is made, after the copy, after the document is written.\<close>

definition disk1 :: "jsstring list" where "disk1 = [fig_tmp, fig_pgf]"
definition disk2 :: "jsstring list" where "disk2 = fig_copy # disk1"
definition disk4 :: "jsstring list" where "disk4 = fig_tex # disk2"

text \<open>The scenarios.\<close>

definition env_ok :: "(jsstring list) env" where
  "env_ok = fake_env (Some sample_text) None all_ok makes_all True True"

definition env_tex_fails_long_log :: "(jsstring list) env" where
  "env_tex_fails_long_log = fake_env (Some sample_text) (Some long_log) tex_fails makes_nothing True True"

definition env_tex_fails_empty_log :: "(jsstring list) env" where
  "env_tex_fails_empty_log = fake_env (Some sample_text) (Some []) tex_fails makes_nothing True True"

definition env_no_pdf :: "(jsstring list) env" where
  "env_no_pdf = fake_env (Some sample_text) None all_ok makes_nothing True True"

definition env_unreadable :: "(jsstring list) env" where
  "env_unreadable = fake_env None None all_ok makes_all True True"

definition env_only_convert :: "(jsstring list) env" where
  "env_only_convert = fake_env (Some sample_text) None all_ok only_convert True True"

definition env_no_rasterizer :: "(jsstring list) env" where
  "env_no_rasterizer = fake_env (Some sample_text) None all_ok makes_pdf_only True True"

definition env_open_fails :: "(jsstring list) env" where
  "env_open_fails = fake_env (Some sample_text) None all_ok makes_all False True"


text \<open>The document for the sample source, and the one without a preamble.\<close>

definition sample_doc :: jsstring where
  "sample_doc =
     BSL # js ''documentclass[border=1mm]{standalone}'' @ [LF]
     @ BSL # js ''usepackage{pgf}'' @ [LF]
     @ BSL # js ''usepackage{lmodern}'' @ [LF]
     @ js ''x'' @ [LF] @ js ''y'' @ [LF]
     @ BSL # js ''begin{document}'' @ [LF]
     @ BSL # js ''input{/home/u/fig.pgf}'' @ [LF]
     @ BSL # js ''end{document}'' @ [LF]"

definition plain_doc :: jsstring where
  "plain_doc =
     BSL # js ''documentclass[border=1mm]{standalone}'' @ [LF]
     @ BSL # js ''usepackage{pgf}'' @ [LF]
     @ BSL # js ''usepackage{lmodern}'' @ [LF]
     @ BSL # js ''begin{document}'' @ [LF]
     @ BSL # js ''input{/home/u/fig.pgf}'' @ [LF]
     @ BSL # js ''end{document}'' @ [LF]"

text \<open>The disk and the calls after a compilation that worked, and the rasterizers' arguments.\<close>

definition disk5 :: "jsstring list" where "disk5 = fig_pdf # disk4"

definition compile_calls :: "op list" where
  "compile_calls =
     [Mkdtemp (js ''/tmp/vscode-pgf-''), CopyFile fig_pgf fig_copy, ReadFile fig_copy,
      WriteFile fig_tex sample_doc, ExecFile (js ''pdflatex'') pdflatex_args (Some fig_tmp),
      ExistsSync fig_pdf]"

definition compiled :: "(jsstring list) state" where
  "compiled = \<lparr>world = disk5, trace = compile_calls @ [SetOptions fig_tmp]\<rparr>"

definition poppler_args :: "jsstring list" where
  "poppler_args = [js ''-png'', js ''-singlefile'', fig_pdf, js ''/tmp/vscode-pgf-Xk3f9a/fig'']"

definition convert_args :: "jsstring list" where
  "convert_args = [js ''-density'', js ''300'', fig_pdf, fig_png]"

definition no_rasterizer :: js_error where
  "no_rasterizer = new_Error (js ''No rasterizer found: please install pdftocairo, pdftoppm, or ImageMagick `convert`.'')"

section \<open>Notions used in the proofs\<close>

text \<open>
  \<open>appends Q m\<close>: whatever the state, the program \<open>m\<close> only appends calls to the record, and
  every call it appends satisfies \<open>Q\<close>.
\<close>

definition appends :: "(op \<Rightarrow> bool) \<Rightarrow> ('a, 'w) prog \<Rightarrow> bool" where
  "appends Q m \<longleftrightarrow> (\<forall>s. \<exists>new. trace (snd (m s)) = trace s @ new \<and> list_all Q new)"


section \<open>The operations on a workspace\<close>

text \<open>
  The paths of a request in the workspace \<open>tmpRoot\<close>: the base name of the source, the PDF,
  the prefix given to the rasterizers and the PNG.
\<close>

definition ws_base :: "'w env \<Rightarrow> jsstring \<Rightarrow> jsstring" where
  "ws_base E srcPath = basename_ext E srcPath (extname E srcPath)"

definition ws_pdf :: "'w env \<Rightarrow> jsstring \<Rightarrow> jsstring \<Rightarrow> jsstring" where
  "ws_pdf E srcPath tmpRoot = path_join E tmpRoot (ws_base E srcPath @ js ''.pdf'')"

definition ws_prefix :: "'w env \<Rightarrow> jsstring \<Rightarrow> jsstring \<Rightarrow> jsstring" where
  "ws_prefix E srcPath tmpRoot =
     path_join E tmpRoot
       (basename_ext E (ws_pdf E srcPath tmpRoot) (extname E (ws_pdf E srcPath tmpRoot)))"

definition ws_png :: "'w env \<Rightarrow> jsstring \<Rightarrow> jsstring \<Rightarrow> jsstring" where
  "ws_png E srcPath tmpRoot =
     path_join E tmpRoot
       (basename_ext E (ws_pdf E srcPath tmpRoot) (extname E (ws_pdf E srcPath tmpRoot))
        @ js ''.png'')"

text \<open>
  The calls a request may make once its workspace \<open>tmpRoot\<close> exists, each with its
  arguments: the copy of the source into the workspace; the read of that copy and of the
  log; the write of the document into the workspace; the TeX engine and the three
  rasterizers, with the arguments the source gives them; the two questions about the PDF
  and the PNG; the host command that opens the PNG; the accesses to the panel. No second
  workspace is made and no other command is run.
\<close>

fun workspace_op :: "'w env \<Rightarrow> jsstring \<Rightarrow> jsstring \<Rightarrow> op \<Rightarrow> bool" where
  "workspace_op E srcPath tmpRoot (Mkdtemp p) = False"
| "workspace_op E srcPath tmpRoot (CopyFile a b) =
     (a = srcPath \<and> b = path_join E tmpRoot (basename E srcPath))"
| "workspace_op E srcPath tmpRoot (ReadFile p) =
     (p = path_join E tmpRoot (basename E srcPath)
      \<or> p = path_join E tmpRoot (ws_base E srcPath @ js ''.log''))"
| "workspace_op E srcPath tmpRoot (WriteFile p c) =
     (p = path_join E tmpRoot (ws_base E srcPath @ js ''.tex''))"
| "workspace_op E srcPath tmpRoot (ExecFile c a d) =
     (c = js ''pdflatex''
        \<and> a = [js ''-interaction=batchmode'', js ''-output-directory'', tmpRoot,
               ws_base E srcPath @ js ''.tex'']
        \<and> d = Some tmpRoot
      \<or> (c = js ''pdftocairo'' \<or> c = js ''pdftoppm'')
        \<and> a = [js ''-png'', js ''-singlefile'', ws_pdf E srcPath tmpRoot,
               ws_prefix E srcPath tmpRoot]
        \<and> d = None
      \<or> c = js ''convert''
        \<and> a = [js ''-density'', js ''300'', ws_pdf E srcPath tmpRoot, ws_png E srcPath tmpRoot]
        \<and> d = None)"
| "workspace_op E srcPath tmpRoot (ExistsSync p) =
     (p = ws_pdf E srcPath tmpRoot \<or> p = ws_png E srcPath tmpRoot)"
| "workspace_op E srcPath tmpRoot (SetOptions p) = (p = tmpRoot)"
| "workspace_op E srcPath tmpRoot (ExecuteCommand c a) =
     (c = js ''vscode.open'' \<and> a = ws_png E srcPath tmpRoot)"
| "workspace_op E srcPath tmpRoot DisposePanel = True"
| "workspace_op E srcPath tmpRoot (AsWebviewUri p) = (p = ws_pdf E srcPath tmpRoot)"
| "workspace_op E srcPath tmpRoot (SetHtml h) = True"

text \<open>What a recorded call does to the world: what the platform says it does.\<close>

fun effect :: "'w env \<Rightarrow> op \<Rightarrow> 'w \<Rightarrow> 'w" where
  "effect E (Mkdtemp p) w = snd (mkdtemp E p w)"
| "effect E (CopyFile a b) w = snd (copyFile E a b w)"
| "effect E (ReadFile p) w = snd (readFile E p w)"
| "effect E (WriteFile p c) w = snd (writeFile E p c w)"
| "effect E (ExecFile c a d) w = snd (execFile E c a d w)"
| "effect E (ExistsSync p) w = w"
| "effect E (SetOptions p) w = snd (setOptions E p w)"
| "effect E (ExecuteCommand c a) w = snd (executeCommand E c a w)"
| "effect E DisposePanel w = snd (dispose E w)"
| "effect E (AsWebviewUri p) w = snd (asWebviewUri E p w)"
| "effect E (SetHtml h) w = snd (setHtml E h w)"

text \<open>
  \<open>replay E cs w\<close>: the world after the calls \<open>cs\<close>, made one after the other from the
  world \<open>w\<close>.
\<close>

definition replay :: "'w env \<Rightarrow> op list \<Rightarrow> 'w \<Rightarrow> 'w" where
  "replay E cs w = foldl (\<lambda>w c. effect E c w) w cs"

text \<open>
  \<open>runs E Q R m\<close>: whatever the state, the program \<open>m\<close> only appends calls to the record,
  every call it appends satisfies \<open>Q\<close>, the world it ends in is the one these calls make
  of the world it started in, and every value it returns satisfies \<open>R\<close>.
\<close>

definition runs :: "'w env \<Rightarrow> (op \<Rightarrow> bool) \<Rightarrow> ('a \<Rightarrow> bool) \<Rightarrow> ('a, 'w) prog \<Rightarrow> bool" where
  "runs E Q R m \<longleftrightarrow>
     (\<forall>s. \<exists>new. trace (snd (m s)) = trace s @ new \<and> list_all Q new
                \<and> world (snd (m s)) = replay E new (world s)
                \<and> (\<forall>v. fst (m s) = Inr v \<longrightarrow> R v))"

declare find_start.simps [simp del] collect.simps [simp del]

section \<open>Properties of the string operations\<close>

lemma last_dropWhile: "dropWhile P xs \<noteq> [] \<Longrightarrow> last (dropWhile P xs) = last xs"
  by (induction xs) (auto split: if_splits)

lemma trim_ends:
  "trim s = [] \<or> (\<not> is_space (hd (trim s)) \<and> \<not> is_space (last (trim s)))"
proof (cases "trim s = []")
  case True
  then show ?thesis by simp
next
  case False
  let ?d = "dropWhile is_space s"
  let ?e = "dropWhile is_space (rev ?d)"
  from False have e: "?e \<noteq> []" by (simp add: trim_def)
  then have d: "?d \<noteq> []" by (metis dropWhile.simps(1) rev.simps(1))
  have "last (trim s) = hd ?e" using e by (simp add: trim_def last_rev)
  moreover have "\<not> is_space (hd ?e)" using e hd_dropWhile by blast
  moreover have "hd (trim s) = last ?e" using e by (simp add: trim_def hd_rev)
  moreover have "last ?e = hd ?d"
    using e d last_dropWhile [of is_space "rev ?d"] by (simp add: last_rev)
  moreover have "\<not> is_space (hd ?d)" using d hd_dropWhile by blast
  ultimately show ?thesis by simp
qed

lemma trim_fixed:
  assumes "t \<noteq> []" "\<not> is_space (hd t)" "\<not> is_space (last t)"
  shows "trim t = t"
proof -
  have "dropWhile is_space t = t" using assms by (cases t) auto
  moreover have "dropWhile is_space (rev t) = rev t"
    using assms by (cases "rev t") (auto simp: last_rev [symmetric] dest: arg_cong [where f = hd])
  ultimately show ?thesis by (simp add: trim_def)
qed

lemma trim_idem: "trim (trim s) = trim s"
proof (cases "trim s = []")
  case True
  have "trim [] = []" by (simp add: trim_def)
  with True show ?thesis by simp
next
  case False
  then show ?thesis using trim_ends [of s] trim_fixed [of "trim s"] by blast
qed

section \<open>Properties of the regular expressions\<close>

lemma star_ends_hd: "star_ends p s \<noteq> [] \<and> hd (star_ends p s) = dropWhile p s"
  by (induction s) auto

lemma hd_concat_map:
  "xs \<noteq> [] \<Longrightarrow> f (hd xs) \<noteq> [] \<Longrightarrow>
   hd (concat (map f xs)) = hd (f (hd xs)) \<and> concat (map f xs) \<noteq> []"
  by (cases xs) auto

lemma concat_rx_ends_Nil: "concat (map (rx_ends []) xs) = xs"
  by (induction xs) auto

lemma rx_ends_Star_single: "rx_ends [Star p] = star_ends p"
  by (rule ext) (simp add: concat_rx_ends_Nil)

lemma indent_starts_pct: "rx_test indent_rx l \<Longrightarrow> \<exists>cs. l = 0x25 # cs"
  by (cases l) (auto simp: rx_test_def indent_rx_def is_pct_def split: if_splits)

text \<open>
  On a line that starts with the comment character, the first match of
  \<open>/^\s*%+\s*/\<close> is the whole run of comment characters and the white space after it.
\<close>

lemma prefix_replace_pct: "rx_replace prefix_rx (0x25 # cs) = decomment (0x25 # cs)"
proof -
  let ?l = "0x25 # cs"
  have a: "star_ends is_space ?l = [?l]" by (simp add: is_space_def)
  have "rx_ends prefix_rx ?l = concat (map (star_ends is_space) (star_ends is_pct cs))"
    unfolding prefix_rx_def rx_ends.simps(2) [of "Star is_space"] atom_ends.simps a
    by (simp add: is_pct_def rx_ends_Star_single)
  moreover have "hd (concat (map (star_ends is_space) (star_ends is_pct cs)))
       = dropWhile is_space (dropWhile is_pct cs)
     \<and> concat (map (star_ends is_space) (star_ends is_pct cs)) \<noteq> []"
    using hd_concat_map [of "star_ends is_pct cs" "star_ends is_space"] star_ends_hd by simp
  ultimately show ?thesis
    by (auto simp: rx_replace_def decomment_def is_pct_def split: list.splits)
qed

lemma replace_decomment: "rx_test indent_rx l \<Longrightarrow> rx_replace prefix_rx l = decomment l"
  using indent_starts_pct prefix_replace_pct by blast

section \<open>The two loops of the extractor\<close>

lemma find_start_skip:
  "\<forall>l \<in> set pre. \<not> rx_test marker_rx l \<Longrightarrow> i \<le> length pre \<Longrightarrow>
   find_start (pre @ ls) i = find_start (pre @ ls) (length pre)"
proof (induction "length pre - i" arbitrary: i)
  case 0
  then show ?case by simp
next
  case (Suc n)
  then have lt: "i < length pre" by simp
  then have "\<not> rx_test marker_rx ((pre @ ls) ! i)"
    using Suc.prems(1) by (simp add: nth_append)
  then have "find_start (pre @ ls) i = find_start (pre @ ls) (i + 1)"
    using lt by (subst find_start.simps) simp
  also have "\<dots> = find_start (pre @ ls) (length pre)"
    using Suc lt by (intro Suc.hyps(1)) auto
  finally show ?case .
qed

lemma find_start_none:
  "\<forall>l \<in> set ls. \<not> rx_test marker_rx l \<Longrightarrow> find_start ls 0 = - 1"
  using find_start_skip [of ls 0 "[]"] by (simp add: find_start.simps [of ls "length ls"])

lemma find_start_first:
  "\<forall>l \<in> set pre. \<not> rx_test marker_rx l \<Longrightarrow> rx_test marker_rx m \<Longrightarrow>
   find_start (pre @ m # ls) 0 = int (length pre) + 1"
  using find_start_skip [of pre 0 "m # ls"]
  by (simp add: find_start.simps [of "pre @ m # ls" "length pre"])

lemma find_start_minus_one:
  "find_start ls 0 = - 1 \<longleftrightarrow> (\<forall>l \<in> set ls. \<not> rx_test marker_rx l)"
proof
  assume a: "find_start ls 0 = - 1"
  show "\<forall>l \<in> set ls. \<not> rx_test marker_rx l"
  proof (rule ccontr)
    assume "\<not> (\<forall>l \<in> set ls. \<not> rx_test marker_rx l)"
    then have "\<exists>l \<in> set ls. rx_test marker_rx l" by blast
    then obtain pre m after where "ls = pre @ m # after" "rx_test marker_rx m"
      "\<forall>l \<in> set pre. \<not> rx_test marker_rx l"
      using split_list_first_prop [of ls "rx_test marker_rx"] by blast
    then have "find_start ls 0 = int (length pre) + 1"
      using find_start_first by blast
    with a show False by simp
  qed
next
  assume "\<forall>l \<in> set ls. \<not> rx_test marker_rx l"
  then show "find_start ls 0 = - 1" by (rule find_start_none)
qed

lemma collect_takeWhile:
  "collect ls i out =
     out @ map (rx_replace prefix_rx) (takeWhile (rx_test indent_rx) (drop i ls))"
proof (induction ls i out rule: collect.induct)
  case (1 ls i out)
  show ?case
  proof (cases "i < length ls")
    case False
    then show ?thesis by (simp add: collect.simps [of ls i])
  next
    case True
    then have d: "drop i ls = ls ! i # drop (i + 1) ls"
      by (simp add: Cons_nth_drop_Suc)
    show ?thesis
    proof (cases "rx_test indent_rx (ls ! i)")
      case False
      then show ?thesis using True d by (simp add: collect.simps [of ls i])
    next
      case t: True
      then show ?thesis using True d "1.IH" by (simp add: collect.simps [of ls i])
    qed
  qed
qed

lemma extract_after_marker:
  assumes sp: "split_lines text = pre @ m # after"
    and pre: "\<forall>l \<in> set pre. \<not> rx_test marker_rx l"
    and m: "rx_test marker_rx m"
  shows "extractMatplotlibPreamble text =
     nonempty_or_null (trim (join_nl (map decomment (takeWhile (rx_test indent_rx) after))))"
proof -
  let ?ls = "pre @ m # after"
  let ?block = "takeWhile (rx_test indent_rx) after"
  have st: "find_start ?ls 0 = int (length pre) + 1"
    using find_start_first [OF pre m] .
  have dr: "drop (nat (int (length pre) + 1)) ?ls = after"
    by (simp add: nat_add_distrib)
  have "map (rx_replace prefix_rx) ?block = map decomment ?block"
    by (intro map_cong) (auto dest: set_takeWhileD replace_decomment)
  then have "collect ?ls (nat (int (length pre) + 1)) [] = map decomment ?block"
    by (simp only: collect_takeWhile dr append_Nil)
  then show ?thesis
    by (simp add: extractMatplotlibPreamble_def sp st Let_def nonempty_or_null_def)
qed

lemma takeWhile_block:
  "\<forall>l \<in> set block. P l \<Longrightarrow> rest = [] \<or> \<not> P (hd rest) \<Longrightarrow> takeWhile P (block @ rest) = block"
  by (cases rest) auto

lemma extract_no_marker:
  "\<forall>l \<in> set (split_lines text). \<not> rx_test marker_rx l \<Longrightarrow> extractMatplotlibPreamble text = None"
  by (simp add: extractMatplotlibPreamble_def find_start_none)

section \<open>The sample inputs, evaluated\<close>

lemma sample_lines:
  "split_lines sample_text =
     [js ''%% Creator: Matplotlib'', sample_marker, js ''%%   x'', js ''%%   y'', js ''%% z'',
      js ''%%   w'']"
  by (simp add: sample_text_def sample_marker_def js_def LF_def CR_def)

lemma sample_tests:
  "\<not> rx_test marker_rx (js ''%% Creator: Matplotlib'')"
  "rx_test marker_rx sample_marker"
  "rx_test indent_rx (js ''%%   x'')"
  "rx_test indent_rx (js ''%%   y'')"
  "\<not> rx_test indent_rx (js ''%% z'')"
  "rx_test indent_rx (js ''%%   w'')"
  "\<not> rx_test marker_rx (BSL # js ''begin{pgfpicture}'')"
  "\<not> rx_test marker_rx (js ''no marker here'')"
  by (simp_all add: rx_test_def marker_rx_def indent_rx_def sample_marker_def is_pct_def
      is_space_def js_def BSL_def)

lemma sample_strip:
  "rx_replace prefix_rx (js ''%%   x'') = js ''x''"
  "rx_replace prefix_rx (js ''%%   y'') = js ''y''"
  "decomment (js ''%%   x'') = js ''x''"
  "decomment (js ''%%   y'') = js ''y''"
  by (simp_all add: rx_replace_def prefix_rx_def decomment_def is_pct_def is_space_def js_def)

lemma sample_trim:
  "trim (js ''x'' @ LF # js ''y'') = js ''x'' @ LF # js ''y''"
  "js ''x'' @ LF # js ''y'' \<noteq> []"
  by (simp_all add: trim_def is_space_def js_def LF_def)

lemma one_line:
  "split_lines (BSL # js ''begin{pgfpicture}'') = [BSL # js ''begin{pgfpicture}'']"
  "split_lines (js ''no marker here'') = [js ''no marker here'']"
  by (simp_all add: js_def BSL_def LF_def CR_def)

lemma blank_block:
  "split_lines blank_block_text = [sample_marker, js ''%%    '', js ''%%   '']"
  "rx_test indent_rx (js ''%%    '')" 
  "rx_test indent_rx (js ''%%   '')"
  "rx_replace prefix_rx (js ''%%    '') = []"
  "rx_replace prefix_rx (js ''%%   '') = []"
  by (simp_all add: blank_block_text_def sample_marker_def rx_test_def rx_replace_def
      indent_rx_def prefix_rx_def is_pct_def is_space_def js_def LF_def CR_def)

lemmas sample_simps = sample_lines sample_tests sample_strip sample_trim one_line blank_block

section \<open>The preamble extractor: the claims\<close>

text \<open>
  C1. When the lines of the source text are some lines without the marker, then a line that
  matches the marker, then a block of lines that all match the indent pattern, and the
  block ends the text or is followed by a line that does not match, the extractor returns
  exactly the block de-commented line by line, joined with line feeds and trimmed (a block
  that is empty after trimming is reported as \<open>null\<close>, which is \<open>None\<close>). When no line of
  the text matches the marker, it returns \<open>null\<close>.
\<close>

theorem extract_marked_block:
  "(split_lines text = pre @ m # block @ rest
      \<and> (\<forall>l \<in> set pre. \<not> rx_test marker_rx l) \<and> rx_test marker_rx m
      \<and> (\<forall>l \<in> set block. rx_test indent_rx l)
      \<and> (rest = [] \<or> \<not> rx_test indent_rx (hd rest))
    \<longrightarrow> extractMatplotlibPreamble text
          = nonempty_or_null (trim (join_nl (map decomment block))))
   \<and> ((\<forall>l \<in> set (split_lines text'). \<not> rx_test marker_rx l)
    \<longrightarrow> extractMatplotlibPreamble text' = None)"
proof (intro conjI impI)
  assume h: "split_lines text = pre @ m # block @ rest
      \<and> (\<forall>l \<in> set pre. \<not> rx_test marker_rx l) \<and> rx_test marker_rx m
      \<and> (\<forall>l \<in> set block. rx_test indent_rx l)
      \<and> (rest = [] \<or> \<not> rx_test indent_rx (hd rest))"
  then have "takeWhile (rx_test indent_rx) (block @ rest) = block"
    using takeWhile_block [of block "rx_test indent_rx" rest] by blast
  then show "extractMatplotlibPreamble text
      = nonempty_or_null (trim (join_nl (map decomment block)))"
    using h extract_after_marker [of "text" pre m "block @ rest"] by simp
next
  assume "\<forall>l \<in> set (split_lines text'). \<not> rx_test marker_rx l"
  then show "extractMatplotlibPreamble text' = None" by (rule extract_no_marker)
qed

theorem extract_marked_block_witness:
  "split_lines sample_text
     = [js ''%% Creator: Matplotlib''] @ sample_marker # [js ''%%   x'', js ''%%   y'']
       @ [js ''%% z'', js ''%%   w'']
   \<and> \<not> rx_test marker_rx (js ''%% Creator: Matplotlib'')
   \<and> rx_test marker_rx sample_marker
   \<and> rx_test indent_rx (js ''%%   x'') \<and> rx_test indent_rx (js ''%%   y'')
   \<and> \<not> rx_test indent_rx (js ''%% z'')
   \<and> extractMatplotlibPreamble sample_text = Some (js ''x'' @ [LF] @ js ''y'')
   \<and> \<not> rx_test marker_rx (BSL # js ''begin{pgfpicture}'')
   \<and> extractMatplotlibPreamble (BSL # js ''begin{pgfpicture}'') = None"
  using extract_marked_block [of sample_text "[js ''%% Creator: Matplotlib'']" sample_marker
      "[js ''%%   x'', js ''%%   y'']" "[js ''%% z'', js ''%%   w'']"
      "BSL # js ''begin{pgfpicture}''"]
  by (simp add: sample_simps nonempty_or_null_def del: split_lines.simps)

text \<open>
  C7. When the first marker line is followed by a block of lines that match the indent
  pattern (the block may be empty) and then by a line that does not match it, the list the
  second loop collects is the block, prefix stripped, and nothing else: no line at or after
  the non-matching one is collected, whatever follows it.
\<close>

theorem collect_stops_at_mismatch:
  assumes "split_lines text = pre @ m # block @ bad # rest"
    and "\<forall>l \<in> set pre. \<not> rx_test marker_rx l"
    and "rx_test marker_rx m"
    and "\<forall>l \<in> set block. rx_test indent_rx l"
    and "\<not> rx_test indent_rx bad"
  shows "collect (split_lines text) (nat (find_start (split_lines text) 0)) []
       = map (rx_replace prefix_rx) block"
proof -
  have st: "find_start (pre @ m # block @ bad # rest) 0 = int (length pre) + 1"
    using find_start_first [OF assms(2,3)] .
  have dr: "drop (nat (int (length pre) + 1)) (pre @ m # block @ bad # rest) = block @ bad # rest"
    by (simp add: nat_add_distrib)
  have tw: "takeWhile (rx_test indent_rx) (block @ bad # rest) = block"
    using takeWhile_block [of block "rx_test indent_rx" "bad # rest"] assms(4,5) by simp
  show ?thesis
    by (simp only: assms(1) st collect_takeWhile dr tw append_Nil)
qed

theorem collect_stops_at_mismatch_witness:
  "split_lines sample_text
     = [js ''%% Creator: Matplotlib''] @ sample_marker # [js ''%%   x'', js ''%%   y'']
       @ js ''%% z'' # [js ''%%   w'']
   \<and> \<not> rx_test marker_rx (js ''%% Creator: Matplotlib'')
   \<and> rx_test marker_rx sample_marker
   \<and> rx_test indent_rx (js ''%%   x'') \<and> rx_test indent_rx (js ''%%   y'')
   \<and> \<not> rx_test indent_rx (js ''%% z'')
   \<and> rx_test indent_rx (js ''%%   w'')
   \<and> collect (split_lines sample_text) (nat (find_start (split_lines sample_text) 0)) []
       = [js ''x'', js ''y'']"
  using collect_stops_at_mismatch [of sample_text "[js ''%% Creator: Matplotlib'']"
      sample_marker "[js ''%%   x'', js ''%%   y'']" "js ''%% z''" "[js ''%%   w'']"]
  by (simp add: sample_simps)

text \<open>
  C8. The extractor returns on every input string (both loops terminate and every index is
  inside the array), and what it returns is \<open>null\<close> or a string that is not empty and has
  no white space at either end. It returns \<open>null\<close> exactly when no line matches the marker
  or the collected block is empty after trimming.
\<close>

theorem extract_total:
  "(extractMatplotlibPreamble text = None
     \<or> (\<exists>r. extractMatplotlibPreamble text = Some r \<and> r \<noteq> [] \<and> trim r = r
            \<and> \<not> is_space (hd r) \<and> \<not> is_space (last r)))
   \<and> (extractMatplotlibPreamble text = None \<longleftrightarrow>
        (\<forall>l \<in> set (split_lines text). \<not> rx_test marker_rx l)
        \<or> trim (join_nl (collect (split_lines text)
               (nat (find_start (split_lines text) 0)) [])) = [])"
proof (intro conjI)
  let ?ls = "split_lines text"
  let ?r = "trim (join_nl (collect ?ls (nat (find_start ?ls 0)) []))"
  show "extractMatplotlibPreamble text = None
     \<or> (\<exists>r. extractMatplotlibPreamble text = Some r \<and> r \<noteq> [] \<and> trim r = r
            \<and> \<not> is_space (hd r) \<and> \<not> is_space (last r))"
  proof (cases "extractMatplotlibPreamble text")
    case None
    then show ?thesis by simp
  next
    case (Some r)
    then have "r = ?r" "r \<noteq> []"
      by (auto simp: extractMatplotlibPreamble_def Let_def split: if_splits)
    then show ?thesis using Some trim_idem [of "join_nl (collect ?ls (nat (find_start ?ls 0)) [])"]
        trim_ends [of "join_nl (collect ?ls (nat (find_start ?ls 0)) [])"] by auto
  qed
  show "extractMatplotlibPreamble text = None \<longleftrightarrow>
        (\<forall>l \<in> set ?ls. \<not> rx_test marker_rx l) \<or> ?r = []"
    using find_start_minus_one [of ?ls]
    by (auto simp: extractMatplotlibPreamble_def Let_def)
qed

theorem extract_total_witness:
  "split_lines (js ''no marker here'') = [js ''no marker here'']
   \<and> \<not> rx_test marker_rx (js ''no marker here'')
   \<and> extractMatplotlibPreamble (js ''no marker here'') = None
   \<and> rx_test marker_rx (hd (split_lines blank_block_text))
   \<and> trim (join_nl (collect (split_lines blank_block_text)
            (nat (find_start (split_lines blank_block_text) 0)) [])) = []
   \<and> extractMatplotlibPreamble blank_block_text = None
   \<and> extractMatplotlibPreamble sample_text = Some (js ''x'' @ [LF] @ js ''y'')
   \<and> trim (js ''x'' @ [LF] @ js ''y'') = js ''x'' @ [LF] @ js ''y''"
proof -
  have c: "trim (join_nl (collect (split_lines blank_block_text)
            (nat (find_start (split_lines blank_block_text) 0)) [])) = []"
    by (simp add: sample_simps find_start.simps collect.simps trim_def is_space_def LF_def)
  have d: "extractMatplotlibPreamble sample_text = Some (js ''x'' @ [LF] @ js ''y'')"
    by (simp add: extractMatplotlibPreamble_def sample_simps find_start.simps collect.simps)
  from extract_total [of "js ''no marker here''"]
  have e: "extractMatplotlibPreamble (js ''no marker here'') = None"
    by (simp add: sample_simps)
  from extract_total [of blank_block_text] c
  have f: "extractMatplotlibPreamble blank_block_text = None" by blast
  from extract_total [of sample_text] d
  have g: "trim (js ''x'' @ [LF] @ js ''y'') = js ''x'' @ [LF] @ js ''y''" by auto
  show ?thesis using c d e f g by (simp add: sample_simps)
qed

section \<open>Sequencing, traces and invariants\<close>

lemmas prog_defs = and_then_def try_catch_def call_def ret_def throw_def exists_sync_def
  read_or_empty_def











lemma appendsD:
  "appends Q m \<Longrightarrow> \<exists>new. trace (snd (m s)) = trace s @ new \<and> list_all Q new"
  by (simp add: appends_def)

lemma replay_Nil: "replay E [] w = w"
  by (simp add: replay_def)

lemma replay_Cons: "replay E (c # cs) w = replay E cs (effect E c w)"
  by (simp add: replay_def)

lemma replay_append: "replay E (xs @ ys) w = replay E ys (replay E xs w)"
  by (simp add: replay_def)

lemma replay_keeps:
  "\<forall>c w. Q c \<and> P w \<longrightarrow> P (effect E c w) \<Longrightarrow> list_all Q cs \<Longrightarrow> P w \<Longrightarrow> P (replay E cs w)"
  by (induction cs arbitrary: w) (simp_all add: replay_Nil replay_Cons)

lemma runsD:
  "runs E Q R m \<Longrightarrow>
   \<exists>new. trace (snd (m s)) = trace s @ new \<and> list_all Q new
        \<and> world (snd (m s)) = replay E new (world s)"
  unfolding runs_def by blast

lemma runs_ret: "R v \<Longrightarrow> runs E Q R (ret v)"
  by (simp add: runs_def ret_def replay_Nil)

lemma runs_throw: "runs E Q R (throw e)"
  by (simp add: runs_def throw_def replay_Nil)

lemma runs_call:
  "Q c \<Longrightarrow> (\<And>w. snd (f w) = effect E c w) \<Longrightarrow> (\<And>w v. fst (f w) = Inr v \<Longrightarrow> R v) \<Longrightarrow>
   runs E Q R (call c f)"
  unfolding runs_def call_def
  by (auto simp: replay_Nil replay_Cons split: prod.splits intro!: exI [of _ "[c]"])
     (metis snd_conv, metis fst_conv)

lemma runs_and_then:
  fixes m :: "('a, 'w) prog"
  assumes "runs E Q R1 m" and "\<And>v. R1 v \<Longrightarrow> runs E Q R (f v)"
  shows "runs E Q R (and_then m f)"
proof (unfold runs_def, intro allI)
  fix s :: "'w state"
  obtain r s1 where m: "m s = (r, s1)" by (cases "m s")
  from assms(1) have "\<exists>new. trace (snd (m s)) = trace s @ new \<and> list_all Q new
                \<and> world (snd (m s)) = replay E new (world s)
                \<and> (\<forall>v. fst (m s) = Inr v \<longrightarrow> R1 v)"
    unfolding runs_def by blast
  with m obtain n1 where n1: "trace s1 = trace s @ n1" "list_all Q n1"
      "world s1 = replay E n1 (world s)" "\<forall>v. r = Inr v \<longrightarrow> R1 v"
    by auto
  show "\<exists>new. trace (snd (and_then m f s)) = trace s @ new \<and> list_all Q new
                \<and> world (snd (and_then m f s)) = replay E new (world s)
                \<and> (\<forall>v. fst (and_then m f s) = Inr v \<longrightarrow> R v)"
  proof (cases r)
    case (Inl e)
    show ?thesis by (rule exI [of _ n1]) (simp add: and_then_def m Inl n1)
  next
    case (Inr v)
    with n1 have "R1 v" by simp
    from assms(2) [OF this] have "\<exists>new. trace (snd (f v s1)) = trace s1 @ new \<and> list_all Q new
                \<and> world (snd (f v s1)) = replay E new (world s1)
                \<and> (\<forall>x. fst (f v s1) = Inr x \<longrightarrow> R x)"
      unfolding runs_def by blast
    then obtain n2 where n2: "trace (snd (f v s1)) = trace s1 @ n2" "list_all Q n2"
        "world (snd (f v s1)) = replay E n2 (world s1)" "\<forall>x. fst (f v s1) = Inr x \<longrightarrow> R x"
      by blast
    show ?thesis
      by (rule exI [of _ "n1 @ n2"]) (simp add: and_then_def m Inr n1 n2 replay_append)
  qed
qed

lemma runs_and_then_any:
  fixes m :: "('a, 'w) prog"
  assumes "runs E Q (\<lambda>_. True) m" and "\<And>v. runs E Q R (f v)"
  shows "runs E Q R (and_then m f)"
  using assms by (rule runs_and_then)

lemma runs_try_catch:
  fixes m :: "('a, 'w) prog"
  assumes "runs E Q R m" and "\<And>e. runs E Q R (h e)"
  shows "runs E Q R (try_catch m h)"
proof (unfold runs_def, intro allI)
  fix s :: "'w state"
  obtain r s1 where m: "m s = (r, s1)" by (cases "m s")
  from assms(1) have "\<exists>new. trace (snd (m s)) = trace s @ new \<and> list_all Q new
                \<and> world (snd (m s)) = replay E new (world s)
                \<and> (\<forall>v. fst (m s) = Inr v \<longrightarrow> R v)"
    unfolding runs_def by blast
  with m obtain n1 where n1: "trace s1 = trace s @ n1" "list_all Q n1"
      "world s1 = replay E n1 (world s)" "\<forall>v. r = Inr v \<longrightarrow> R v"
    by auto
  show "\<exists>new. trace (snd (try_catch m h s)) = trace s @ new \<and> list_all Q new
                \<and> world (snd (try_catch m h s)) = replay E new (world s)
                \<and> (\<forall>v. fst (try_catch m h s) = Inr v \<longrightarrow> R v)"
  proof (cases r)
    case (Inr v)
    show ?thesis using n1(4) by (intro exI [of _ n1]) (simp add: try_catch_def m Inr n1)
  next
    case (Inl e)
    from assms(2) [of e] have "\<exists>new. trace (snd (h e s1)) = trace s1 @ new \<and> list_all Q new
                \<and> world (snd (h e s1)) = replay E new (world s1)
                \<and> (\<forall>x. fst (h e s1) = Inr x \<longrightarrow> R x)"
      unfolding runs_def by blast
    then obtain n2 where n2: "trace (snd (h e s1)) = trace s1 @ n2" "list_all Q n2"
        "world (snd (h e s1)) = replay E n2 (world s1)" "\<forall>x. fst (h e s1) = Inr x \<longrightarrow> R x"
      by blast
    show ?thesis
      by (rule exI [of _ "n1 @ n2"]) (simp add: try_catch_def m Inl n1 n2 replay_append)
  qed
qed

lemma runs_if: "runs E Q R a \<Longrightarrow> runs E Q R b \<Longrightarrow> runs E Q R (if c then a else b)"
  by simp

lemmas runs_intros = runs_ret runs_throw runs_call runs_and_then_any runs_try_catch runs_if

lemma runs_exists_sync: "Q (ExistsSync p) \<Longrightarrow> runs E Q (\<lambda>_. True) (exists_sync E p)"
  unfolding exists_sync_def by (rule runs_call) simp_all

lemma runs_read_or_empty: "Q (ReadFile p) \<Longrightarrow> runs E Q (\<lambda>_. True) (read_or_empty E p)"
  unfolding read_or_empty_def by (intro runs_intros) simp_all


lemma try_and_then_call_Inr:
  "f (world s) = (Inr v, w1) \<Longrightarrow>
   try_catch (and_then (and_then (call c f) R) K) H s
     = try_catch (and_then (R v) K) H \<lparr>world = w1, trace = trace s @ [c]\<rparr>"
  by (simp add: try_catch_def and_then_def call_def)

lemma try_and_then_call_Inl:
  "f (world s) = (Inl e, w1) \<Longrightarrow>
   try_catch (and_then (and_then (call c f) R) K) H s
     = H e \<lparr>world = w1, trace = trace s @ [c]\<rparr>"
  by (simp add: try_catch_def and_then_def call_def)

section \<open>The test double, evaluated\<close>

lemma fake_env_sel:
  "tmpdir (fake_env src log ok makes opens panel) = js ''/tmp''"
  "path_join (fake_env src log ok makes opens panel) = posix_join"
  "basename (fake_env src log ok makes opens panel) = posix_basename"
  "basename_ext (fake_env src log ok makes opens panel) = posix_basename_ext"
  "extname (fake_env src log ok makes opens panel) = posix_extname"
  "mkdtemp (fake_env src log ok makes opens panel) p w = (Inr (p @ js ''Xk3f9a''), (p @ js ''Xk3f9a'') # w)"
  "copyFile (fake_env src log ok makes opens panel) a b w =
     (if a \<in> set w then (Inr (), b # w) else (Inl (new_Error (js ''ENOENT: no such file'')), w))"
  "readFile (fake_env src log ok makes opens panel) p w =
     (case (if posix_extname p = js ''.log'' then log else src) of
        None \<Rightarrow> (Inl (new_Error (js ''EACCES: permission denied'')), w)
      | Some t \<Rightarrow> (Inr t, w))"
  "writeFile (fake_env src log ok makes opens panel) p c w = (Inr (), p # w)"
  "execFile (fake_env src log ok makes opens panel) cmd args cwd w =
     (if cmd = js ''rm'' then (Inr (), filter (\<lambda>p. \<not> under args p) w)
      else (if ok cmd then Inr () else Inl (new_Error (js ''Command failed: '' @ cmd)),
            makes cmd @ w))"
  "existsSync (fake_env src log ok makes opens panel) p w \<longleftrightarrow> p \<in> set w"
  "executeCommand (fake_env src log ok makes opens panel) c a w =
     (if opens then Inr () else Inl (new_Error (js ''Unable to open'')), w)"
  "dispose (fake_env src log ok makes opens panel) w = (Inr (), w)"
  "setOptions (fake_env src log ok makes opens panel) p w =
     (if panel then Inr () else Inl (new_Error (js ''Webview is disposed'')), w)"
  "setHtml (fake_env src log ok makes opens panel) h w =
     (if panel then Inr () else Inl (new_Error (js ''Webview is disposed'')), w)"
  "asWebviewUri (fake_env src log ok makes opens panel) p w =
     (if panel then Inr (js ''vscode-webview://'' @ p)
      else Inl (new_Error (js ''Webview is disposed'')), w)"
  by (simp_all add: fake_env_def)

lemmas fig_defs = fig_pgf_def fig_tmp_def fig_pdf_def fig_png_def fig_copy_def fig_tex_def
  fig_log_def

lemma fig_paths:
  "posix_join (js ''/tmp'') (js ''vscode-pgf-'') = js ''/tmp/vscode-pgf-''"
  "js ''/tmp/vscode-pgf-'' @ js ''Xk3f9a'' = fig_tmp"
  "posix_basename fig_pgf = js ''fig.pgf''"
  "posix_extname fig_pgf = js ''.pgf''"
  "posix_basename_ext fig_pgf (js ''.pgf'') = js ''fig''"
  "posix_join fig_tmp (js ''fig.pgf'') = fig_copy"
  "posix_join fig_tmp (js ''fig'' @ js ''.tex'') = fig_tex"
  "posix_join fig_tmp (js ''fig'' @ js ''.log'') = fig_log"
  "posix_join fig_tmp (js ''fig'' @ js ''.pdf'') = fig_pdf"
  "posix_join fig_tmp (js ''fig'' @ js ''.png'') = fig_png"
  "posix_join fig_tmp (js ''fig'') = js ''/tmp/vscode-pgf-Xk3f9a/fig''"
  "posix_extname fig_copy = js ''.pgf''"
  "posix_extname fig_log = js ''.log''"
  "posix_extname fig_pdf = js ''.pdf''"
  "posix_basename_ext fig_pdf (js ''.pdf'') = js ''fig''"
  "js ''.pgf'' \<noteq> js ''.log''"
  by (simp_all add: fig_defs posix_join_def posix_basename_def posix_extname_def
      posix_basename_ext_def js_def Let_def)

lemma fig_distinct:
  "fig_png \<noteq> fig_pdf" "fig_png \<noteq> fig_tex" "fig_png \<noteq> fig_copy" "fig_png \<noteq> fig_tmp"
  "fig_png \<noteq> fig_pgf" "fig_pdf \<noteq> fig_tex" "fig_pdf \<noteq> fig_copy" "fig_pdf \<noteq> fig_tmp"
  "fig_pdf \<noteq> fig_pgf"
  by (simp_all add: fig_defs js_def)

lemma tool_names:
  "js ''pdftocairo'' \<noteq> js ''pdflatex''" "js ''pdftoppm'' \<noteq> js ''pdflatex''"
  "js ''convert'' \<noteq> js ''pdflatex''" "js ''pdftocairo'' \<noteq> js ''convert''"
  "js ''pdftoppm'' \<noteq> js ''convert''"
  "js ''pdflatex'' \<noteq> js ''rm''" "js ''pdftocairo'' \<noteq> js ''rm''"
  "js ''pdftoppm'' \<noteq> js ''rm''" "js ''convert'' \<noteq> js ''rm''"
  by (simp_all add: js_def)

lemma sample_extract:
  "extractMatplotlibPreamble sample_text = Some (js ''x'' @ LF # js ''y'')"
  by (simp add: sample_text_def sample_marker_def extractMatplotlibPreamble_def js_def LF_def
      CR_def find_start.simps collect.simps rx_test_def rx_replace_def marker_rx_def
      indent_rx_def prefix_rx_def is_pct_def is_space_def trim_def)

lemma empty_extract: "extractMatplotlibPreamble [] = None"
  by (simp add: extractMatplotlibPreamble_def find_start.simps rx_test_def marker_rx_def)

lemma sample_docs:
  "texContent fig_pgf (Some (js ''x'' @ LF # js ''y'')) = sample_doc"
  "texContent fig_pgf None = plain_doc"
  by (simp_all add: texContent_def sample_doc_def plain_doc_def fig_pgf_def js_def)

lemmas scenario_defs = env_ok_def env_tex_fails_long_log_def env_tex_fails_empty_log_def
  env_no_pdf_def env_unreadable_def env_only_convert_def env_no_rasterizer_def
  env_open_fails_def

lemmas fake_simps = fake_env_sel fig_paths fig_distinct tool_names sample_extract empty_extract
  sample_docs start_def disk1_def disk2_def disk4_def disk5_def pdflatex_args_def
  compile_calls_def compiled_def poppler_args_def convert_args_def no_rasterizer_def
  all_ok_def tex_fails_def makes_all_def makes_pdf_only_def makes_nothing_def only_convert_def





section \<open>compilePgfToPdf: the claims\<close>

lemma extract_Some_nonempty: "extractMatplotlibPreamble t = Some p \<Longrightarrow> p \<noteq> []"
  by (auto simp: extractMatplotlibPreamble_def Let_def split: if_splits)

lemma texContent_template:
  "texContent srcPath (extractMatplotlibPreamble t) =
     BSL # js ''documentclass[border=1mm]{standalone}'' @ [LF]
     @ BSL # js ''usepackage{pgf}'' @ [LF]
     @ BSL # js ''usepackage{lmodern}'' @ [LF]
     @ (case extractMatplotlibPreamble t of None \<Rightarrow> [] | Some p \<Rightarrow> p @ [LF])
     @ BSL # js ''begin{document}'' @ [LF]
     @ BSL # js ''input{'' @ srcPath @ js ''}'' @ [LF]
     @ BSL # js ''end{document}'' @ [LF]"
  by (cases "extractMatplotlibPreamble t") (auto simp: texContent_def dest: extract_Some_nonempty)

text \<open>
  C5. Once the workspace is made and the source copied, the fourth call of
  \<open>compilePgfToPdf\<close> writes the document, named after the base name of the source, into the
  workspace, and the document is the fixed template: class \<open>standalone\<close> with
  \<open>border=1mm\<close>, packages \<open>pgf\<close> and \<open>lmodern\<close>, then the extracted preamble and a line
  feed when there is a preamble and nothing when there is none, then a body whose one
  \<open>\input\<close> names the source path as it was given, whatever the workspace is. The
  source text is what was read from the copy, or empty when the read failed.
\<close>

theorem synthesized_document:
  assumes "base = basename_ext E srcPath (extname E srcPath)"
    and "dstSrc = path_join E tmpRoot (basename E srcPath)"
    and "mkdtemp E (path_join E (tmpdir E) (js ''vscode-pgf-'')) (world s) = (Inr tmpRoot, w1)"
    and "copyFile E srcPath dstSrc w1 = (Inr (), w2)"
    and "readFile E dstSrc w2 = (rd, w3)"
    and "srcText = (case rd of Inl e \<Rightarrow> [] | Inr t \<Rightarrow> t)"
  shows "\<exists>rest. trace (snd (compilePgfToPdf E srcPath s)) =
     trace s @
     [Mkdtemp (path_join E (tmpdir E) (js ''vscode-pgf-'')),
      CopyFile srcPath dstSrc,
      ReadFile dstSrc,
      WriteFile (path_join E tmpRoot (base @ js ''.tex''))
        (BSL # js ''documentclass[border=1mm]{standalone}'' @ [LF]
         @ BSL # js ''usepackage{pgf}'' @ [LF]
         @ BSL # js ''usepackage{lmodern}'' @ [LF]
         @ (case extractMatplotlibPreamble srcText of None \<Rightarrow> [] | Some p \<Rightarrow> p @ [LF])
         @ BSL # js ''begin{document}'' @ [LF]
         @ BSL # js ''input{'' @ srcPath @ js ''}'' @ [LF]
         @ BSL # js ''end{document}'' @ [LF])] @ rest"
  using assms(3-5) unfolding assms(1,2,6) texContent_template [symmetric]
  by (cases rd) (auto simp: compilePgfToPdf_def prog_defs Let_def split: sum.splits prod.splits)

theorem synthesized_document_witness:
  "mkdtemp env_ok (js ''/tmp/vscode-pgf-'') (world start) = (Inr fig_tmp, disk1)
   \<and> copyFile env_ok fig_pgf fig_copy disk1 = (Inr (), disk2)
   \<and> readFile env_ok fig_copy disk2 = (Inr sample_text, disk2)
   \<and> extractMatplotlibPreamble sample_text = Some (js ''x'' @ [LF] @ js ''y'')
   \<and> take 4 (trace (snd (compilePgfToPdf env_ok fig_pgf start)))
       = [Mkdtemp (js ''/tmp/vscode-pgf-''), CopyFile fig_pgf fig_copy, ReadFile fig_copy,
          WriteFile fig_tex sample_doc]"
proof -
  let ?E = env_ok
  have b: "js ''fig'' = basename_ext ?E fig_pgf (extname ?E fig_pgf)"
    by (simp add: scenario_defs fake_simps)
  have d: "fig_copy = path_join ?E fig_tmp (basename ?E fig_pgf)"
    by (simp add: scenario_defs fake_simps)
  have h1: "mkdtemp ?E (path_join ?E (tmpdir ?E) (js ''vscode-pgf-'')) (world start)
      = (Inr fig_tmp, disk1)"
    by (simp add: scenario_defs fake_simps)
  have h2: "copyFile ?E fig_pgf fig_copy disk1 = (Inr (), disk2)"
    by (simp add: scenario_defs fake_simps)
  have h3: "readFile ?E fig_copy disk2 = (Inr sample_text, disk2)"
    by (simp add: scenario_defs fake_simps)
  have t: "sample_text = (case Inr sample_text of Inl e \<Rightarrow> [] | Inr t \<Rightarrow> t)" by simp
  have doc: "BSL # js ''documentclass[border=1mm]{standalone}'' @ [LF]
         @ BSL # js ''usepackage{pgf}'' @ [LF]
         @ BSL # js ''usepackage{lmodern}'' @ [LF]
         @ (case extractMatplotlibPreamble sample_text of None \<Rightarrow> [] | Some p \<Rightarrow> p @ [LF])
         @ BSL # js ''begin{document}'' @ [LF]
         @ BSL # js ''input{'' @ fig_pgf @ js ''}'' @ [LF]
         @ BSL # js ''end{document}'' @ [LF] = sample_doc"
    by (simp add: sample_extract sample_doc_def fig_pgf_def js_def)
  from synthesized_document [OF b d h1 h2 h3 t]
  have "take 4 (trace (snd (compilePgfToPdf ?E fig_pgf start)))
       = [Mkdtemp (path_join ?E (tmpdir ?E) (js ''vscode-pgf-'')), CopyFile fig_pgf fig_copy,
          ReadFile fig_copy, WriteFile (path_join ?E fig_tmp (js ''fig'' @ js ''.tex'')) sample_doc]"
    unfolding doc by (auto simp: start_def)
  then have r: "take 4 (trace (snd (compilePgfToPdf ?E fig_pgf start)))
       = [Mkdtemp (js ''/tmp/vscode-pgf-''), CopyFile fig_pgf fig_copy, ReadFile fig_copy,
          WriteFile fig_tex sample_doc]"
    by (simp add: scenario_defs fake_env_sel fig_paths)
  show ?thesis using h1 h2 h3 r sample_extract
    by (simp add: scenario_defs fake_env_sel fig_paths)
qed

text \<open>
  C10. When the read of the copied source fails, the error is dropped: the extractor, run
  on the empty text, finds no preamble; the document written is the template without a
  preamble; the TeX engine is run next; and when the engine leaves the PDF on the disk the
  function returns the workspace and the PDF path.
\<close>

theorem source_read_failure_swallowed:
  assumes "base = basename_ext E srcPath (extname E srcPath)"
    and "dstSrc = path_join E tmpRoot (basename E srcPath)"
    and "pdfPath = path_join E tmpRoot (base @ js ''.pdf'')"
    and "doc = BSL # js ''documentclass[border=1mm]{standalone}'' @ [LF]
         @ BSL # js ''usepackage{pgf}'' @ [LF]
         @ BSL # js ''usepackage{lmodern}'' @ [LF]
         @ BSL # js ''begin{document}'' @ [LF]
         @ BSL # js ''input{'' @ srcPath @ js ''}'' @ [LF]
         @ BSL # js ''end{document}'' @ [LF]"
    and "mkdtemp E (path_join E (tmpdir E) (js ''vscode-pgf-'')) (world s) = (Inr tmpRoot, w1)"
    and "copyFile E srcPath dstSrc w1 = (Inr (), w2)"
    and "readFile E dstSrc w2 = (Inl e, w3)"
    and "writeFile E (path_join E tmpRoot (base @ js ''.tex'')) doc w3 = (Inr (), w4)"
  shows "extractMatplotlibPreamble [] = None
   \<and> (\<exists>rest. trace (snd (compilePgfToPdf E srcPath s)) =
       trace s @
       [Mkdtemp (path_join E (tmpdir E) (js ''vscode-pgf-'')),
        CopyFile srcPath dstSrc,
        ReadFile dstSrc,
        WriteFile (path_join E tmpRoot (base @ js ''.tex'')) doc,
        ExecFile (js ''pdflatex'')
          [js ''-interaction=batchmode'', js ''-output-directory'', tmpRoot, base @ js ''.tex'']
          (Some tmpRoot)] @ rest)
   \<and> (\<forall>w5. execFile E (js ''pdflatex'')
          [js ''-interaction=batchmode'', js ''-output-directory'', tmpRoot, base @ js ''.tex'']
          (Some tmpRoot) w4 = (Inr (), w5) \<and> existsSync E pdfPath w5
        \<longrightarrow> fst (compilePgfToPdf E srcPath s) = Inr (tmpRoot, pdfPath))"
proof -
  have n: "extractMatplotlibPreamble [] = None" by (rule empty_extract)
  have d: "texContent srcPath None = doc" by (simp add: texContent_def assms(4))
  have "\<exists>rest. trace (snd (compilePgfToPdf E srcPath s)) =
       trace s @
       [Mkdtemp (path_join E (tmpdir E) (js ''vscode-pgf-'')),
        CopyFile srcPath dstSrc,
        ReadFile dstSrc,
        WriteFile (path_join E tmpRoot (base @ js ''.tex'')) doc,
        ExecFile (js ''pdflatex'')
          [js ''-interaction=batchmode'', js ''-output-directory'', tmpRoot, base @ js ''.tex'']
          (Some tmpRoot)] @ rest"
    using assms(5-8) unfolding assms(1,2) d [symmetric]
    by (auto simp: compilePgfToPdf_def prog_defs Let_def n split: sum.splits prod.splits)
  moreover have "\<forall>w5. execFile E (js ''pdflatex'')
          [js ''-interaction=batchmode'', js ''-output-directory'', tmpRoot, base @ js ''.tex'']
          (Some tmpRoot) w4 = (Inr (), w5) \<and> existsSync E pdfPath w5
        \<longrightarrow> fst (compilePgfToPdf E srcPath s) = Inr (tmpRoot, pdfPath)"
    using assms(5-8) unfolding assms(1,2,3) d [symmetric]
    by (simp add: compilePgfToPdf_def prog_defs Let_def n)
  ultimately show ?thesis using n by blast
qed

theorem source_read_failure_swallowed_witness:
  "readFile env_unreadable fig_copy disk2
     = (Inl (new_Error (js ''EACCES: permission denied'')), disk2)
   \<and> writeFile env_unreadable fig_tex plain_doc disk2 = (Inr (), disk4)
   \<and> execFile env_unreadable (js ''pdflatex'') pdflatex_args (Some fig_tmp) disk4
       = (Inr (), disk5)
   \<and> existsSync env_unreadable fig_pdf disk5
   \<and> fst (compilePgfToPdf env_unreadable fig_pgf start) = Inr (fig_tmp, fig_pdf)"
proof -
  let ?E = env_unreadable
  have b: "js ''fig'' = basename_ext ?E fig_pgf (extname ?E fig_pgf)"
    by (simp add: scenario_defs fake_simps)
  have d: "fig_copy = path_join ?E fig_tmp (basename ?E fig_pgf)"
    by (simp add: scenario_defs fake_simps)
  have pdf: "fig_pdf = path_join ?E fig_tmp (js ''fig'' @ js ''.pdf'')"
    by (simp add: scenario_defs fake_simps)
  have doc: "plain_doc = BSL # js ''documentclass[border=1mm]{standalone}'' @ [LF]
         @ BSL # js ''usepackage{pgf}'' @ [LF]
         @ BSL # js ''usepackage{lmodern}'' @ [LF]
         @ BSL # js ''begin{document}'' @ [LF]
         @ BSL # js ''input{'' @ fig_pgf @ js ''}'' @ [LF]
         @ BSL # js ''end{document}'' @ [LF]"
    by (simp add: plain_doc_def fig_pgf_def js_def)
  have h1: "mkdtemp ?E (path_join ?E (tmpdir ?E) (js ''vscode-pgf-'')) (world start)
      = (Inr fig_tmp, disk1)"
    by (simp add: scenario_defs fake_simps)
  have h2: "copyFile ?E fig_pgf fig_copy disk1 = (Inr (), disk2)"
    by (simp add: scenario_defs fake_simps)
  have h3: "readFile ?E fig_copy disk2
      = (Inl (new_Error (js ''EACCES: permission denied'')), disk2)"
    by (simp add: scenario_defs fake_simps)
  have h4: "writeFile ?E (path_join ?E fig_tmp (js ''fig'' @ js ''.tex'')) plain_doc disk2
      = (Inr (), disk4)"
    by (simp add: scenario_defs fake_simps)
  have h5: "execFile ?E (js ''pdflatex'')
      [js ''-interaction=batchmode'', js ''-output-directory'', fig_tmp, js ''fig'' @ js ''.tex'']
      (Some fig_tmp) disk4 = (Inr (), disk5)"
    by (simp add: scenario_defs fake_simps)
  have ex: "existsSync ?E fig_pdf disk5"
    by (simp add: scenario_defs fake_simps)
  from source_read_failure_swallowed [OF b d pdf doc h1 h2 h3 h4] h5 ex
  have r: "fst (compilePgfToPdf ?E fig_pgf start) = Inr (fig_tmp, fig_pdf)" by blast
  have e4: "writeFile ?E fig_tex plain_doc disk2 = (Inr (), disk4)"
    using h4 by (simp add: scenario_defs fake_env_sel fig_paths)
  have e5: "execFile ?E (js ''pdflatex'') pdflatex_args (Some fig_tmp) disk4 = (Inr (), disk5)"
    using h5 by (simp add: pdflatex_args_def)
  show ?thesis using h3 e4 e5 ex r by blast
qed

text \<open>
  C2, as amended. When the TeX engine's invocation fails, \<open>compilePgfToPdf\<close> throws an
  error whose message is \<open>Failed to build PGF: \<close> followed by a diagnostic. With a log
  that can be read: the diagnostic is the first 200 characters of the log and three dots,
  203 characters, when the log is longer than 200; it is the whole log when the log has 1
  to 200 characters; it is the text of the invocation's error when the log is empty. With
  no log that can be read, it is the text of the invocation's error.
\<close>

theorem build_failure_diagnostic:
  assumes "base = basename_ext E srcPath (extname E srcPath)"
    and "dstSrc = path_join E tmpRoot (basename E srcPath)"
    and "mkdtemp E (path_join E (tmpdir E) (js ''vscode-pgf-'')) (world s) = (Inr tmpRoot, w1)"
    and "copyFile E srcPath dstSrc w1 = (Inr (), w2)"
    and "readFile E dstSrc w2 = (rd, w3)"
    and "writeFile E (path_join E tmpRoot (base @ js ''.tex''))
           (texContent srcPath (extractMatplotlibPreamble (case rd of Inl e \<Rightarrow> [] | Inr t \<Rightarrow> t))) w3
         = (Inr (), w4)"
    and "execFile E (js ''pdflatex'')
           [js ''-interaction=batchmode'', js ''-output-directory'', tmpRoot, base @ js ''.tex'']
           (Some tmpRoot) w4 = (Inl err, w5)"
    and "readFile E (path_join E tmpRoot (base @ js ''.log'')) w5 = (lg, w6)"
  shows "\<exists>d. fst (compilePgfToPdf E srcPath s) = Inl (new_Error (js ''Failed to build PGF: '' @ d))
     \<and> (case lg of
          Inr log \<Rightarrow>
            (200 < length log \<longrightarrow> d = take 200 log @ js ''...'' \<and> length d = 203)
            \<and> (0 < length log \<and> length log \<le> 200 \<longrightarrow> d = log)
            \<and> (log = [] \<longrightarrow> d = error_text err)
        | Inl e \<Rightarrow> d = error_text err)"
proof -
  let ?log = "case lg of Inl e \<Rightarrow> [] | Inr t \<Rightarrow> t"
  have run: "fst (compilePgfToPdf E srcPath s)
      = Inl (new_Error (js ''Failed to build PGF: '' @ short_log ?log err))"
    using assms(3-8) unfolding assms(1,2)
    by (cases rd; cases lg) (simp_all add: compilePgfToPdf_def prog_defs Let_def)
  have "case lg of
          Inr log \<Rightarrow>
            (200 < length log \<longrightarrow> short_log ?log err = take 200 log @ js ''...''
                \<and> length (short_log ?log err) = 203)
            \<and> (0 < length log \<and> length log \<le> 200 \<longrightarrow> short_log ?log err = log)
            \<and> (log = [] \<longrightarrow> short_log ?log err = error_text err)
        | Inl e \<Rightarrow> short_log ?log err = error_text err"
    by (cases lg) (auto simp: short_log_def js_def)
  with run show ?thesis by blast
qed

theorem build_failure_diagnostic_witness:
  "mkdtemp env_tex_fails_long_log (js ''/tmp/vscode-pgf-'') (world start) = (Inr fig_tmp, disk1)
   \<and> copyFile env_tex_fails_long_log fig_pgf fig_copy disk1 = (Inr (), disk2)
   \<and> readFile env_tex_fails_long_log fig_copy disk2 = (Inr sample_text, disk2)
   \<and> writeFile env_tex_fails_long_log fig_tex sample_doc disk2 = (Inr (), disk4)
   \<and> execFile env_tex_fails_long_log (js ''pdflatex'') pdflatex_args (Some fig_tmp) disk4
       = (Inl (new_Error (js ''Command failed: '' @ js ''pdflatex'')), disk4)
   \<and> readFile env_tex_fails_long_log fig_log disk4 = (Inr long_log, disk4)
   \<and> length long_log = 500
   \<and> fst (compilePgfToPdf env_tex_fails_long_log fig_pgf start)
       = Inl (new_Error (js ''Failed to build PGF: '' @ replicate 200 0x61 @ js ''...''))
   \<and> length (replicate 200 (0x61 :: jschar) @ js ''...'') = 203"
proof -
  let ?E = env_tex_fails_long_log
  have b: "js ''fig'' = basename_ext ?E fig_pgf (extname ?E fig_pgf)"
    by (simp add: scenario_defs fake_simps)
  have d: "fig_copy = path_join ?E fig_tmp (basename ?E fig_pgf)"
    by (simp add: scenario_defs fake_simps)
  have h1: "mkdtemp ?E (path_join ?E (tmpdir ?E) (js ''vscode-pgf-'')) (world start)
      = (Inr fig_tmp, disk1)"
    by (simp add: scenario_defs fake_simps)
  have h2: "copyFile ?E fig_pgf fig_copy disk1 = (Inr (), disk2)"
    by (simp add: scenario_defs fake_simps)
  have h3: "readFile ?E fig_copy disk2 = (Inr sample_text, disk2)"
    by (simp add: scenario_defs fake_simps)
  have h4: "writeFile ?E (path_join ?E fig_tmp (js ''fig'' @ js ''.tex''))
      (texContent fig_pgf (extractMatplotlibPreamble
         (case Inr sample_text of Inl e \<Rightarrow> [] | Inr t \<Rightarrow> t))) disk2 = (Inr (), disk4)"
    by (simp add: scenario_defs fake_simps)
  have h5: "execFile ?E (js ''pdflatex'')
      [js ''-interaction=batchmode'', js ''-output-directory'', fig_tmp, js ''fig'' @ js ''.tex'']
      (Some fig_tmp) disk4 = (Inl (new_Error (js ''Command failed: '' @ js ''pdflatex'')), disk4)"
    by (simp add: scenario_defs fake_simps)
  have h6: "readFile ?E (path_join ?E fig_tmp (js ''fig'' @ js ''.log'')) disk4
      = (Inr long_log, disk4)"
    by (simp add: scenario_defs fake_simps)
  have l: "length long_log = 500" by (simp add: long_log_def)
  have t: "take 200 long_log = replicate 200 0x61" by (simp add: long_log_def)
  from build_failure_diagnostic [OF b d h1 h2 h3 h4 h5 h6] l t
  have r: "fst (compilePgfToPdf ?E fig_pgf start)
      = Inl (new_Error (js ''Failed to build PGF: '' @ replicate 200 0x61 @ js ''...''))"
    by auto
  have e7: "length (replicate 200 (0x61 :: jschar) @ js ''...'') = 203" by (simp add: js_def)
  show ?thesis using h1 h2 h3 h4 h5 h6 l r e7
    by (simp add: scenario_defs fake_simps)
qed

text \<open>
  C2 as it is stated fails for a log file that exists and is empty: the diagnostic is then
  the text of the invocation's error, which is not the (empty) log.
\<close>

theorem build_failure_empty_log_counterexample:
  "readFile env_tex_fails_empty_log fig_log disk4 = (Inr [], disk4)
   \<and> fst (compilePgfToPdf env_tex_fails_empty_log fig_pgf start)
       = Inl (new_Error (js ''Failed to build PGF: '' @ js ''Command failed: '' @ js ''pdflatex''))
   \<and> js ''Command failed: '' @ js ''pdflatex'' \<noteq> []"
proof -
  have a: "readFile env_tex_fails_empty_log fig_log disk4 = (Inr [], disk4)"
    by (simp add: scenario_defs fake_simps)
  have n: "js ''Command failed: '' @ js ''pdflatex'' \<noteq> []" by (simp add: js_def)
  have "message (new_Error (js ''Command failed: '' @ js ''pdflatex'')) \<noteq> []"
    using n by (simp add: new_Error_def)
  then have b: "fst (compilePgfToPdf env_tex_fails_empty_log fig_pgf start)
       = Inl (new_Error (js ''Failed to build PGF: '' @ js ''Command failed: '' @ js ''pdflatex''))"
    by (simp add: scenario_defs fake_simps compilePgfToPdf_def prog_defs short_log_def
        error_text_def Let_def) (simp add: new_Error_def)
  show ?thesis using a b n by blast
qed

lemma compile_success_exists:
  "compilePgfToPdf E srcPath s = (Inr (t, p), s') \<Longrightarrow>
   existsSync E p (world s') \<and> last (trace s') = ExistsSync p"
  by (auto simp: compilePgfToPdf_def prog_defs Let_def split: sum.splits prod.splits if_splits)

text \<open>
  C6. When the TeX engine's invocation returns without error, the next call asks whether
  the PDF (the base name of the source with \<open>.pdf\<close>, inside the workspace) is on the disk;
  the function returns the workspace and that path when it is, and throws
  \<open>PDF not produced\<close> when it is not. On every run that returns, the last call was that
  question about the path returned and the answer was yes.
\<close>

theorem pdf_existence_checked:
  assumes "base = basename_ext E srcPath (extname E srcPath)"
    and "dstSrc = path_join E tmpRoot (basename E srcPath)"
    and "doc = texContent srcPath (extractMatplotlibPreamble (case rd of Inl e \<Rightarrow> [] | Inr t \<Rightarrow> t))"
    and "pdfPath = path_join E tmpRoot (base @ js ''.pdf'')"
    and "mkdtemp E (path_join E (tmpdir E) (js ''vscode-pgf-'')) (world s) = (Inr tmpRoot, w1)"
    and "copyFile E srcPath dstSrc w1 = (Inr (), w2)"
    and "readFile E dstSrc w2 = (rd, w3)"
    and "writeFile E (path_join E tmpRoot (base @ js ''.tex'')) doc w3 = (Inr (), w4)"
    and "execFile E (js ''pdflatex'')
           [js ''-interaction=batchmode'', js ''-output-directory'', tmpRoot, base @ js ''.tex'']
           (Some tmpRoot) w4 = (Inr (), w5)"
  shows "compilePgfToPdf E srcPath s =
     (if existsSync E pdfPath w5 then Inr (tmpRoot, pdfPath)
      else Inl (new_Error (js ''PDF not produced. Ensure `pdflatex` is installed.'')),
      \<lparr>world = w5,
       trace = trace s @
         [Mkdtemp (path_join E (tmpdir E) (js ''vscode-pgf-'')),
          CopyFile srcPath dstSrc,
          ReadFile dstSrc,
          WriteFile (path_join E tmpRoot (base @ js ''.tex'')) doc,
          ExecFile (js ''pdflatex'')
            [js ''-interaction=batchmode'', js ''-output-directory'', tmpRoot, base @ js ''.tex'']
            (Some tmpRoot),
          ExistsSync pdfPath]\<rparr>)
   \<and> (\<forall>E' src' s0 t p s'. compilePgfToPdf E' src' s0 = (Inr (t, p), s')
          \<longrightarrow> existsSync (E' :: 'w env) p (world s') \<and> last (trace s') = ExistsSync p)"
proof
  show "compilePgfToPdf E srcPath s =
     (if existsSync E pdfPath w5 then Inr (tmpRoot, pdfPath)
      else Inl (new_Error (js ''PDF not produced. Ensure `pdflatex` is installed.'')),
      \<lparr>world = w5,
       trace = trace s @
         [Mkdtemp (path_join E (tmpdir E) (js ''vscode-pgf-'')),
          CopyFile srcPath dstSrc,
          ReadFile dstSrc,
          WriteFile (path_join E tmpRoot (base @ js ''.tex'')) doc,
          ExecFile (js ''pdflatex'')
            [js ''-interaction=batchmode'', js ''-output-directory'', tmpRoot, base @ js ''.tex'']
            (Some tmpRoot),
          ExistsSync pdfPath]\<rparr>)"
    using assms(5-9) unfolding assms(1-4)
    by (cases rd) (simp_all add: compilePgfToPdf_def prog_defs Let_def)
  show "\<forall>E' src' s0 t p s'. compilePgfToPdf E' src' s0 = (Inr (t, p), s')
          \<longrightarrow> existsSync (E' :: 'w env) p (world s') \<and> last (trace s') = ExistsSync p"
    using compile_success_exists by blast
qed

theorem pdf_existence_checked_witness:
  "execFile env_no_pdf (js ''pdflatex'') pdflatex_args (Some fig_tmp) disk4 = (Inr (), disk4)
   \<and> \<not> existsSync env_no_pdf fig_pdf disk4
   \<and> fst (compilePgfToPdf env_no_pdf fig_pgf start)
       = Inl (new_Error (js ''PDF not produced. Ensure `pdflatex` is installed.''))
   \<and> last (trace (snd (compilePgfToPdf env_no_pdf fig_pgf start))) = ExistsSync fig_pdf"
proof -
  let ?E = env_no_pdf
  have b: "js ''fig'' = basename_ext ?E fig_pgf (extname ?E fig_pgf)"
    by (simp add: scenario_defs fake_simps)
  have d: "fig_copy = path_join ?E fig_tmp (basename ?E fig_pgf)"
    by (simp add: scenario_defs fake_simps)
  have doc: "sample_doc = texContent fig_pgf (extractMatplotlibPreamble
      (case Inr sample_text of Inl e \<Rightarrow> [] | Inr t \<Rightarrow> t))"
    by (simp add: fake_simps)
  have pdf: "fig_pdf = path_join ?E fig_tmp (js ''fig'' @ js ''.pdf'')"
    by (simp add: scenario_defs fake_simps)
  have h1: "mkdtemp ?E (path_join ?E (tmpdir ?E) (js ''vscode-pgf-'')) (world start)
      = (Inr fig_tmp, disk1)"
    by (simp add: scenario_defs fake_simps)
  have h2: "copyFile ?E fig_pgf fig_copy disk1 = (Inr (), disk2)"
    by (simp add: scenario_defs fake_simps)
  have h3: "readFile ?E fig_copy disk2 = (Inr sample_text, disk2)"
    by (simp add: scenario_defs fake_simps)
  have h4: "writeFile ?E (path_join ?E fig_tmp (js ''fig'' @ js ''.tex'')) sample_doc disk2
      = (Inr (), disk4)"
    by (simp add: scenario_defs fake_simps)
  have h5: "execFile ?E (js ''pdflatex'')
      [js ''-interaction=batchmode'', js ''-output-directory'', fig_tmp, js ''fig'' @ js ''.tex'']
      (Some fig_tmp) disk4 = (Inr (), disk4)"
    by (simp add: scenario_defs fake_simps)
  have ne: "\<not> existsSync ?E fig_pdf disk4"
    by (simp add: scenario_defs fake_simps)
  from pdf_existence_checked [OF b d doc pdf h1 h2 h3 h4 h5, THEN conjunct1] ne
  have r: "compilePgfToPdf ?E fig_pgf start =
     (Inl (new_Error (js ''PDF not produced. Ensure `pdflatex` is installed.'')),
      \<lparr>world = disk4,
       trace = trace start @
         [Mkdtemp (path_join ?E (tmpdir ?E) (js ''vscode-pgf-'')),
          CopyFile fig_pgf fig_copy,
          ReadFile fig_copy,
          WriteFile (path_join ?E fig_tmp (js ''fig'' @ js ''.tex'')) sample_doc,
          ExecFile (js ''pdflatex'')
            [js ''-interaction=batchmode'', js ''-output-directory'', fig_tmp, js ''fig'' @ js ''.tex'']
            (Some fig_tmp),
          ExistsSync fig_pdf]\<rparr>)"
    by simp
  have e5: "execFile ?E (js ''pdflatex'') pdflatex_args (Some fig_tmp) disk4 = (Inr (), disk4)"
    using h5 by (simp add: pdflatex_args_def)
  show ?thesis using e5 ne by (simp add: r)
qed

section \<open>renderPdfToPng: the claim\<close>

lemma attempt_run:
  "execFile E tool args None (world s) = (r, w) \<Longrightarrow>
   attempt E tool args png s =
     (Inr (resolved r \<and> existsSync E png w),
      \<lparr>world = w,
       trace = trace s @ ExecFile tool args None # (if resolved r then [ExistsSync png] else [])\<rparr>)"
  by (cases r) (simp_all add: attempt_def prog_defs)

text \<open>
  C3. \<open>renderPdfToPng\<close> runs \<open>pdftocairo\<close>, then \<open>pdftoppm\<close>, then \<open>convert\<close> (with
  \<open>-density 300\<close>), in this order. After a tool that returned without error it asks
  whether the PNG is on the disk; an attempt has succeeded when the tool returned without
  error and the PNG is there. A tool is run only when the attempts before it have not
  succeeded, and nothing is run after an attempt that succeeded. The function returns the
  PNG path when one attempt succeeded, and throws the no-rasterizer error exactly when none
  of the three did.
\<close>

theorem rasterizers_in_order:
  "let base = basename_ext E pdfPath (extname E pdfPath);
       outPrefix = path_join E tmpRoot base;
       pngPath = path_join E tmpRoot (base @ js ''.png'');
       args12 = [js ''-png'', js ''-singlefile'', pdfPath, outPrefix];
       args3 = [js ''-density'', js ''300'', pdfPath, pngPath];
       (r1, w1) = execFile E (js ''pdftocairo'') args12 None (world s);
       (r2, w2) = execFile E (js ''pdftoppm'') args12 None w1;
       (r3, w3) = execFile E (js ''convert'') args3 None w2;
       got1 = (resolved r1 \<and> existsSync E pngPath w1);
       got2 = (resolved r2 \<and> existsSync E pngPath w2);
       got3 = (resolved r3 \<and> existsSync E pngPath w3);
       check = (\<lambda>r. if resolved r then [ExistsSync pngPath] else [])
   in renderPdfToPng E pdfPath tmpRoot s =
       (if got1 \<or> got2 \<or> got3 then Inr pngPath
        else Inl (new_Error (js ''No rasterizer found: please install pdftocairo, pdftoppm, or ImageMagick `convert`.'')),
        \<lparr>world = (if got1 then w1 else if got2 then w2 else w3),
         trace = trace s @ ExecFile (js ''pdftocairo'') args12 None # check r1
           @ (if got1 then []
              else ExecFile (js ''pdftoppm'') args12 None # check r2
                @ (if got2 then []
                   else ExecFile (js ''convert'') args3 None # check r3))\<rparr>)"
proof -
  define base where "base = basename_ext E pdfPath (extname E pdfPath)"
  define pngPath where "pngPath = path_join E tmpRoot (base @ js ''.png'')"
  define args12 where "args12 = [js ''-png'', js ''-singlefile'', pdfPath, path_join E tmpRoot base]"
  define args3 where "args3 = [js ''-density'', js ''300'', pdfPath, pngPath]"
  obtain r1 w1 where x1: "execFile E (js ''pdftocairo'') args12 None (world s) = (r1, w1)"
    by (cases "execFile E (js ''pdftocairo'') args12 None (world s)")
  obtain r2 w2 where x2: "execFile E (js ''pdftoppm'') args12 None w1 = (r2, w2)"
    by (cases "execFile E (js ''pdftoppm'') args12 None w1")
  obtain r3 w3 where x3: "execFile E (js ''convert'') args3 None w2 = (r3, w3)"
    by (cases "execFile E (js ''convert'') args3 None w2")
  define s1 where "s1 = \<lparr>world = w1, trace = trace s @ ExecFile (js ''pdftocairo'') args12 None
      # (if resolved r1 then [ExistsSync pngPath] else [])\<rparr>"
  define s2 where "s2 = \<lparr>world = w2, trace = trace s1 @ ExecFile (js ''pdftoppm'') args12 None
      # (if resolved r2 then [ExistsSync pngPath] else [])\<rparr>"
  have a1: "attempt E (js ''pdftocairo'') args12 pngPath s
      = (Inr (resolved r1 \<and> existsSync E pngPath w1), s1)"
    unfolding s1_def using x1 by (rule attempt_run)
  have a2: "attempt E (js ''pdftoppm'') args12 pngPath s1
      = (Inr (resolved r2 \<and> existsSync E pngPath w2), s2)"
    unfolding s2_def by (rule attempt_run) (simp add: s1_def x2)
  define s3 where "s3 = \<lparr>world = w3, trace = trace s2 @ ExecFile (js ''convert'') args3 None
      # (if resolved r3 then [ExistsSync pngPath] else [])\<rparr>"
  have a3: "attempt E (js ''convert'') args3 pngPath s2
      = (Inr (resolved r3 \<and> existsSync E pngPath w3), s3)"
    unfolding s3_def by (rule attempt_run) (simp add: s2_def x3)
  have "renderPdfToPng E pdfPath tmpRoot s =
       (if resolved r1 \<and> existsSync E pngPath w1 then (Inr pngPath, s1)
        else if resolved r2 \<and> existsSync E pngPath w2 then (Inr pngPath, s2)
        else if resolved r3 \<and> existsSync E pngPath w3 then (Inr pngPath, s3)
        else (Inl (new_Error (js ''No rasterizer found: please install pdftocairo, pdftoppm, or ImageMagick `convert`.'')), s3))"
    unfolding renderPdfToPng_def Let_def base_def [symmetric] pngPath_def [symmetric]
      args12_def [symmetric] args3_def [symmetric]
    by (simp add: and_then_def a1 a2 a3 ret_def throw_def)
  then have "renderPdfToPng E pdfPath tmpRoot s =
       (if (resolved r1 \<and> existsSync E pngPath w1) \<or> (resolved r2 \<and> existsSync E pngPath w2)
           \<or> (resolved r3 \<and> existsSync E pngPath w3) then Inr pngPath
        else Inl (new_Error (js ''No rasterizer found: please install pdftocairo, pdftoppm, or ImageMagick `convert`.'')),
        \<lparr>world = (if resolved r1 \<and> existsSync E pngPath w1 then w1
                  else if resolved r2 \<and> existsSync E pngPath w2 then w2 else w3),
         trace = trace s @ ExecFile (js ''pdftocairo'') args12 None
              # (if resolved r1 then [ExistsSync pngPath] else [])
           @ (if resolved r1 \<and> existsSync E pngPath w1 then []
              else ExecFile (js ''pdftoppm'') args12 None
                 # (if resolved r2 then [ExistsSync pngPath] else [])
                @ (if resolved r2 \<and> existsSync E pngPath w2 then []
                   else ExecFile (js ''convert'') args3 None
                     # (if resolved r3 then [ExistsSync pngPath] else [])))\<rparr>)"
    by (simp add: s1_def s2_def s3_def)
  then show ?thesis
    unfolding Let_def base_def [symmetric] pngPath_def [symmetric]
      args12_def [symmetric] args3_def [symmetric]
    by (simp add: x1 x2 x3)
qed

theorem rasterizers_in_order_witness:
  "renderPdfToPng env_only_convert fig_pdf fig_tmp compiled
     = (Inr fig_png,
        \<lparr>world = fig_png # disk5,
         trace = trace compiled @
           [ExecFile (js ''pdftocairo'') poppler_args None, ExistsSync fig_png,
            ExecFile (js ''pdftoppm'') poppler_args None, ExistsSync fig_png,
            ExecFile (js ''convert'') convert_args None, ExistsSync fig_png]\<rparr>)
   \<and> renderPdfToPng env_no_rasterizer fig_pdf fig_tmp compiled
     = (Inl no_rasterizer,
        \<lparr>world = disk5,
         trace = trace compiled @
           [ExecFile (js ''pdftocairo'') poppler_args None, ExistsSync fig_png,
            ExecFile (js ''pdftoppm'') poppler_args None, ExistsSync fig_png,
            ExecFile (js ''convert'') convert_args None, ExistsSync fig_png]\<rparr>)"
  using rasterizers_in_order [of env_only_convert fig_pdf fig_tmp compiled]
    rasterizers_in_order [of env_no_rasterizer fig_pdf fig_tmp compiled]
  by (simp add: Let_def scenario_defs fake_simps)

section \<open>resolveCustomEditor: the claims\<close>










section \<open>The workspace: the claim\<close>

lemma runs_attempt:
  "Q (ExecFile tool args None) \<Longrightarrow> Q (ExistsSync png) \<Longrightarrow>
   runs E Q (\<lambda>_. True) (attempt E tool args png)"
  unfolding attempt_def by (intro runs_intros runs_exists_sync) simp_all

lemma runs_render:
  "runs E (workspace_op E srcPath tmpRoot) (\<lambda>png. png = ws_png E srcPath tmpRoot)
     (renderPdfToPng E (ws_pdf E srcPath tmpRoot) tmpRoot)"
  unfolding renderPdfToPng_def Let_def
  by (intro runs_intros runs_attempt) (simp_all add: ws_png_def ws_prefix_def)

lemma runs_after_call:
  assumes "f (world s) = (Inr v, w1)"
    and "runs E Q (\<lambda>_. True) (try_catch (and_then (R v) K) H)"
  shows "\<exists>new. trace (snd (try_catch (and_then (and_then (call c f) R) K) H s))
            = trace s @ c # new
          \<and> list_all Q new
          \<and> world (snd (try_catch (and_then (and_then (call c f) R) K) H s)) = replay E new w1"
  using runsD [OF assms(2), of "\<lparr>world = w1, trace = trace s @ [c]\<rparr>"]
  by (simp add: try_and_then_call_Inr [where f = f and s = s, OF assms(1)])

lemma resolve_without_workspace:
  assumes "mkdtemp E (path_join E (tmpdir E) (js ''vscode-pgf-'')) (world s) = (Inl e, w1)"
  shows "trace (snd (resolveCustomEditor E srcPath s)) =
     trace s @ [Mkdtemp (path_join E (tmpdir E) (js ''vscode-pgf-'')),
                SetHtml (error_html (error_text e))]"
  unfolding resolveCustomEditor_def compilePgfToPdf_def
  by (subst try_and_then_call_Inl
      [where f = "mkdtemp E (path_join E (tmpdir E) (js ''vscode-pgf-''))" and s = s, OF assms])
     (simp add: call_def split: prod.splits)

lemma runs_compile_rest:
  "runs E (workspace_op E srcPath tmpRoot) (\<lambda>v. v = (tmpRoot, ws_pdf E srcPath tmpRoot))
     (and_then (call (CopyFile srcPath (path_join E tmpRoot (basename E srcPath)))
                 (copyFile E srcPath (path_join E tmpRoot (basename E srcPath)))) (\<lambda>_.
      and_then (read_or_empty E (path_join E tmpRoot (basename E srcPath))) (\<lambda>srcText.
      and_then (call (WriteFile
                        (path_join E tmpRoot
                           (basename_ext E srcPath (extname E srcPath) @ js ''.tex''))
                        (texContent srcPath (extractMatplotlibPreamble srcText)))
                  (writeFile E
                     (path_join E tmpRoot
                        (basename_ext E srcPath (extname E srcPath) @ js ''.tex''))
                     (texContent srcPath (extractMatplotlibPreamble srcText)))) (\<lambda>_.
      and_then
        (try_catch
           (call (ExecFile (js ''pdflatex'')
                    [js ''-interaction=batchmode'', js ''-output-directory'', tmpRoot,
                     basename_ext E srcPath (extname E srcPath) @ js ''.tex'']
                    (Some tmpRoot))
              (execFile E (js ''pdflatex'')
                 [js ''-interaction=batchmode'', js ''-output-directory'', tmpRoot,
                  basename_ext E srcPath (extname E srcPath) @ js ''.tex'']
                 (Some tmpRoot)))
           (\<lambda>err.
              and_then (read_or_empty E
                          (path_join E tmpRoot
                             (basename_ext E srcPath (extname E srcPath) @ js ''.log'')))
                (\<lambda>log. throw (new_Error (js ''Failed to build PGF: '' @ short_log log err)))))
        (\<lambda>_.
      and_then (exists_sync E
                  (path_join E tmpRoot
                     (basename_ext E srcPath (extname E srcPath) @ js ''.pdf''))) (\<lambda>found.
      if \<not> found then
        throw (new_Error (js ''PDF not produced. Ensure `pdflatex` is installed.''))
      else ret (tmpRoot,
                path_join E tmpRoot
                  (basename_ext E srcPath (extname E srcPath) @ js ''.pdf''))))))))"
  by (intro runs_intros runs_read_or_empty runs_exists_sync)
     (simp_all add: ws_pdf_def ws_base_def)

lemma runs_show:
  "runs E (workspace_op E srcPath tmpRoot) (\<lambda>_. True)
     (and_then (call (SetOptions tmpRoot) (setOptions E tmpRoot)) (\<lambda>_.
        try_catch
          (and_then (renderPdfToPng E (ws_pdf E srcPath tmpRoot) tmpRoot) (\<lambda>pngPath.
           and_then (call (ExecuteCommand (js ''vscode.open'') pngPath)
                       (executeCommand E (js ''vscode.open'') pngPath)) (\<lambda>_.
           try_catch (call DisposePanel (dispose E)) (\<lambda>e. ret ()))))
          (\<lambda>e.
             and_then (call (AsWebviewUri (ws_pdf E srcPath tmpRoot))
                         (asWebviewUri E (ws_pdf E srcPath tmpRoot))) (\<lambda>pdfUri.
             call (SetHtml (fallback_html (error_text e) pdfUri))
               (setHtml E (fallback_html (error_text e) pdfUri))))))"
proof -
  have r: "runs E (workspace_op E srcPath tmpRoot) (\<lambda>_. True)
     (and_then (renderPdfToPng E (ws_pdf E srcPath tmpRoot) tmpRoot) (\<lambda>pngPath.
           and_then (call (ExecuteCommand (js ''vscode.open'') pngPath)
                       (executeCommand E (js ''vscode.open'') pngPath)) (\<lambda>_.
           try_catch (call DisposePanel (dispose E)) (\<lambda>e. ret ()))))"
  proof (rule runs_and_then [OF runs_render])
    fix v assume "v = ws_png E srcPath tmpRoot"
    then show "runs E (workspace_op E srcPath tmpRoot) (\<lambda>_. True)
       (and_then (call (ExecuteCommand (js ''vscode.open'') v)
                       (executeCommand E (js ''vscode.open'') v)) (\<lambda>_.
           try_catch (call DisposePanel (dispose E)) (\<lambda>e. ret ())))"
      by (intro runs_intros) simp_all
  qed
  show ?thesis
    by (intro runs_intros r) simp_all
qed

lemma resolve_workspace_runs:
  assumes "mkdtemp E (path_join E (tmpdir E) (js ''vscode-pgf-'')) (world s) = (Inr tmpRoot, w1)"
  shows "\<exists>new. trace (snd (resolveCustomEditor E srcPath s))
       = trace s @ Mkdtemp (path_join E (tmpdir E) (js ''vscode-pgf-'')) # new
     \<and> list_all (workspace_op E srcPath tmpRoot) new
     \<and> world (snd (resolveCustomEditor E srcPath s)) = replay E new w1"
  unfolding resolveCustomEditor_def compilePgfToPdf_def Let_def
  apply (rule runs_after_call
      [where f = "mkdtemp E (path_join E (tmpdir E) (js ''vscode-pgf-''))", OF assms])
  apply (rule runs_try_catch)
   apply (rule runs_and_then [OF runs_compile_rest])
   apply hypsubst
   apply (simp only: prod.case)
   apply (rule runs_show)
  apply (rule runs_call; simp)
  done

text \<open>
  C9. The first call of a request makes the workspace, with \<open>mkdtemp\<close> on the prefix
  \<open>vscode-pgf-\<close> under the temporary directory of the system. When that fails, the error
  page is assigned and nothing else is called. When it succeeds, every later call is one of
  the calls of \<open>workspace_op\<close>, with the arguments given there: the extension's own writes
  are the copy of the source and the document, both into the workspace; the only commands
  run are the TeX engine and the three rasterizers, each on files of the workspace; no
  second workspace is made, and no call removes a file or a directory. The world at the end
  is the one these calls make, one after the other, of the world in which the workspace
  was made. So a property of the disk that holds once the workspace is made, and that none
  of these calls undoes, still holds when the request is over: the workspace, and what is
  in it, is left in place.
\<close>

theorem workspace_never_removed:
  "case mkdtemp E (path_join E (tmpdir E) (js ''vscode-pgf-'')) (world s) of
     (Inl e, w1) \<Rightarrow>
       trace (snd (resolveCustomEditor E srcPath s)) =
         trace s @ [Mkdtemp (path_join E (tmpdir E) (js ''vscode-pgf-'')),
                    SetHtml (error_html (error_text e))]
   | (Inr tmpRoot, w1) \<Rightarrow>
       (\<exists>new. trace (snd (resolveCustomEditor E srcPath s))
            = trace s @ Mkdtemp (path_join E (tmpdir E) (js ''vscode-pgf-'')) # new
          \<and> list_all (workspace_op E srcPath tmpRoot) new
          \<and> world (snd (resolveCustomEditor E srcPath s)) = replay E new w1)
       \<and> ((\<forall>c w. workspace_op E srcPath tmpRoot c \<and> P w \<longrightarrow> P (effect E c w)) \<and> P w1
          \<longrightarrow> P (world (snd (resolveCustomEditor E srcPath s))))"
proof -
  obtain r w1 where mk: "mkdtemp E (path_join E (tmpdir E) (js ''vscode-pgf-'')) (world s) = (r, w1)"
    by (cases "mkdtemp E (path_join E (tmpdir E) (js ''vscode-pgf-'')) (world s)")
  show ?thesis
  proof (cases r)
    case (Inl e)
    then show ?thesis using mk resolve_without_workspace [of E s e w1 srcPath] by simp
  next
    case (Inr tmpRoot)
    with mk have mk': "mkdtemp E (path_join E (tmpdir E) (js ''vscode-pgf-'')) (world s)
        = (Inr tmpRoot, w1)" by simp
    from resolve_workspace_runs [OF mk', of srcPath]
    obtain new where new: "trace (snd (resolveCustomEditor E srcPath s))
            = trace s @ Mkdtemp (path_join E (tmpdir E) (js ''vscode-pgf-'')) # new"
        "list_all (workspace_op E srcPath tmpRoot) new"
        "world (snd (resolveCustomEditor E srcPath s)) = replay E new w1"
      by blast
    then have a: "\<exists>new. trace (snd (resolveCustomEditor E srcPath s))
            = trace s @ Mkdtemp (path_join E (tmpdir E) (js ''vscode-pgf-'')) # new
          \<and> list_all (workspace_op E srcPath tmpRoot) new
          \<and> world (snd (resolveCustomEditor E srcPath s)) = replay E new w1"
      by blast
    have b: "(\<forall>c w. workspace_op E srcPath tmpRoot c \<and> P w \<longrightarrow> P (effect E c w)) \<and> P w1
          \<longrightarrow> P (world (snd (resolveCustomEditor E srcPath s)))"
    proof (intro impI, elim conjE)
      assume "\<forall>c w. workspace_op E srcPath tmpRoot c \<and> P w \<longrightarrow> P (effect E c w)" and "P w1"
      then have "P (replay E new w1)"
        using new(2) replay_keeps [of "workspace_op E srcPath tmpRoot" P E new w1] by blast
      then show "P (world (snd (resolveCustomEditor E srcPath s)))" by (simp add: new(3))
    qed
    show ?thesis using a b by (simp add: mk')
  qed
qed



theorem workspace_never_removed_witness:
  "mkdtemp env_ok (js ''/tmp/vscode-pgf-'') (world start) = (Inr fig_tmp, disk1)
   \<and> fig_tmp \<in> set disk1
   \<and> fig_tmp \<in> set (world (snd (resolveCustomEditor env_ok fig_pgf start)))
   \<and> hd (trace (snd (resolveCustomEditor env_ok fig_pgf start)))
       = Mkdtemp (js ''/tmp/vscode-pgf-'')
   \<and> list_all (workspace_op env_ok fig_pgf fig_tmp)
       (tl (trace (snd (resolveCustomEditor env_ok fig_pgf start))))
   \<and> \<not> workspace_op env_ok fig_pgf fig_tmp (ExecFile (js ''rm'') [js ''-rf'', fig_tmp] None)
   \<and> fig_tmp \<notin> set (effect env_ok (ExecFile (js ''rm'') [js ''-rf'', fig_tmp] None) disk1)"
proof -
  let ?E = env_ok
  let ?P = "\<lambda>w. fig_tmp \<in> set w"
  let ?final = "snd (resolveCustomEditor ?E fig_pgf start)"
  have mk: "mkdtemp ?E (path_join ?E (tmpdir ?E) (js ''vscode-pgf-'')) (world start)
      = (Inr fig_tmp, disk1)"
    by (simp add: scenario_defs fake_simps)
  have pj: "path_join ?E (tmpdir ?E) (js ''vscode-pgf-'') = js ''/tmp/vscode-pgf-''"
    by (simp add: env_ok_def fake_env_sel fig_paths)
  have p1: "?P disk1" by (simp add: disk1_def)
  have pres: "(\<forall>c w. workspace_op ?E fig_pgf fig_tmp c \<and> ?P w \<longrightarrow> ?P (effect ?E c w)) \<and> ?P disk1"
  proof (intro conjI allI impI p1)
    fix c w assume "workspace_op ?E fig_pgf fig_tmp c \<and> ?P w"
    then show "?P (effect ?E c w)"
      by (cases c) (auto simp: env_ok_def fake_env_sel tool_names tool_names [symmetric] split: option.splits)
  qed
  note t = workspace_never_removed
    [where E = ?E and s = start and srcPath = fig_pgf and P = ?P,
     unfolded mk prod.case sum.case]
  from t have a: "\<exists>new. trace ?final
            = trace start @ Mkdtemp (path_join ?E (tmpdir ?E) (js ''vscode-pgf-'')) # new
          \<and> list_all (workspace_op ?E fig_pgf fig_tmp) new
          \<and> world ?final = replay ?E new disk1"
    by (rule conjunct1)
  from t have k: "?P (world ?final)"
    by (rule conjunct2 [THEN mp]) (rule pres)
  from a obtain new where n: "trace ?final = Mkdtemp (js ''/tmp/vscode-pgf-'') # new"
      "list_all (workspace_op ?E fig_pgf fig_tmp) new"
    unfolding pj by (auto simp: start_def)
  then have h: "hd (trace ?final) = Mkdtemp (js ''/tmp/vscode-pgf-'')"
      "list_all (workspace_op ?E fig_pgf fig_tmp) (tl (trace ?final))"
    by simp_all
  have m: "mkdtemp ?E (js ''/tmp/vscode-pgf-'') (world start) = (Inr fig_tmp, disk1)"
    using mk unfolding pj .
  have rm: "\<not> workspace_op ?E fig_pgf fig_tmp (ExecFile (js ''rm'') [js ''-rf'', fig_tmp] None)"
    by (simp add: tool_names [symmetric])
  have gone: "fig_tmp \<notin> set (effect ?E (ExecFile (js ''rm'') [js ''-rf'', fig_tmp] None) disk1)"
    by (simp add: env_ok_def fake_env_sel disk1_def under_def fig_defs js_def)
  show ?thesis by (intro conjI m p1 k h rm gone)
qed

end
